theory Spec2Isabelle
  imports Complex_Main
begin

section \<open>Scalars, vectors and outcomes\<close>

text \<open>
  The C++ \<^verbatim>\<open>double\<close> and \<^verbatim>\<open>float\<close> values of
  \<^verbatim>\<open>ROOTGeomAnalyzer.cxx\<close> are modelled as exact reals: rounding (also the narrowing of
  the cursor coordinates to \<^verbatim>\<open>float\<close>) is left out. A run of a member function has
  one of three outcomes: it never returns (\<open>None\<close>), it executes an operation with
  undefined behaviour (\<open>Some (Inl f)\<close>), or it returns (\<open>Some (Inr v)\<close>). A fault is
  something the C++ executes, not a check that the code makes.
\<close>

type_synonym vec3 = "real \<times> real \<times> real"

datatype fault = NullDereference | DivisionByZero

type_synonym 'a run = "(fault + 'a) option"

text \<open>\<^verbatim>\<open>TLorentzVector\<close>: three space (or momentum) components and the time (or energy).\<close>

record TLorentzVector =
  fX :: real
  fY :: real
  fZ :: real
  fE :: real

definition Px :: "TLorentzVector \<Rightarrow> real" where "Px p = fX p"
definition Py :: "TLorentzVector \<Rightarrow> real" where "Py p = fY p"
definition Pz :: "TLorentzVector \<Rightarrow> real" where "Pz p = fZ p"

definition P :: "TLorentzVector \<Rightarrow> real" where
  "P p = sqrt (fX p * fX p + fY p * fY p + fZ p * fZ p)"

text \<open>The C++ conversion of a floating value to \<^verbatim>\<open>int\<close> truncates towards zero.\<close>

definition to_int :: "real \<Rightarrow> int" where
  "to_int r = (if 0 \<le> r then \<lfloor>r\<rfloor> else \<lceil>r\<rceil>)"

section \<open>The geometry data read by the analyzer\<close>

record TGeoElement =
  ElemA :: real
  ElemZ :: int

text \<open>A \<^verbatim>\<open>TGeoMaterial\<close>; \<open>GetElements\<close> is \<open>Some\<close> for a \<^verbatim>\<open>TGeoMixture\<close>.\<close>

record TGeoMaterial =
  GetA :: real
  GetZ :: real
  GetDensity :: real
  GetElements :: "TGeoElement list option"

definition IsMixture :: "TGeoMaterial \<Rightarrow> bool" where
  "IsMixture mat = (GetElements mat \<noteq> None)"

datatype TGeoMedium = TGeoMedium (GetMaterial: "TGeoMaterial option")

record TGeoBBox =
  GetDX :: real
  GetDY :: real
  GetDZ :: real
  GetOrigin :: vec3

record TGeoVolume =
  GetName :: string
  GetShape :: TGeoBBox
  GetMedium :: "TGeoMedium option"

section \<open>The external collaborators\<close>

text \<open>
  The ROOT geometry manager is not part of the repository. The analyzer uses it through
  the member functions below; they are taken as parameters, over an arbitrary type \<open>'g\<close>
  of navigation states (current point, direction, node, step and flags live there).
  \<^verbatim>\<open>pdg::IonPdgCode\<close> is a parameter too.
\<close>

record 'g externals =
  SetCurrentDirection :: "vec3 \<Rightarrow> 'g \<Rightarrow> 'g"
  SetCurrentPoint :: "vec3 \<Rightarrow> 'g \<Rightarrow> 'g"
  FindNode :: "vec3 \<Rightarrow> 'g \<Rightarrow> 'g"
  GetCurrentVolume :: "'g \<Rightarrow> TGeoVolume option"
  IsOutside :: "'g \<Rightarrow> bool"
  FindNextBoundary :: "'g \<Rightarrow> 'g"
  GetStep :: "'g \<Rightarrow> real"
  IsEntering :: "'g \<Rightarrow> bool"
  Step :: "'g \<Rightarrow> 'g"
  GetListOfVolumes :: "'g \<Rightarrow> TGeoVolume list"
  IonPdgCode :: "int \<Rightarrow> int \<Rightarrow> int"

text \<open>
  The class \<^verbatim>\<open>PathLengthList\<close> (\<^verbatim>\<open>Geo/PathLengthList.h\<close>) is not under
  \<^verbatim>\<open>src/\<close> either; its three operations used by the analyzer are parameters over the
  representation \<open>'pl\<close>.
\<close>

record 'pl PathLengthList_ops =
  NewPathLengthList :: "int list \<Rightarrow> 'pl"
  SetAllToZero :: "'pl \<Rightarrow> 'pl"
  AddPathLength :: "int \<Rightarrow> real \<Rightarrow> 'pl \<Rightarrow> 'pl"

text \<open>
  Modelled from the spec: \<^verbatim>\<open>PathLengthList\<close> is absent from the sources. The spec's
  data model makes it a mapping from isotope identifier to accumulated scalar, keyed only
  by the registered isotopes, created once from the registered list, with a reset that
  zeroes all entries and an addition to the entry of an isotope.
\<close>

definition PathLengthList :: "(int \<rightharpoonup> real) PathLengthList_ops" where
  "PathLengthList =
     \<lparr> NewPathLengthList = (\<lambda>pdglist k. if k \<in> set pdglist then Some 0 else None),
       SetAllToZero = (\<lambda>m k. if m k = None then None else Some 0),
       AddPathLength = (\<lambda>pdgc pl m. case m pdgc of None \<Rightarrow> m | Some v \<Rightarrow> m(pdgc \<mapsto> v + pl)) \<rparr>"

text \<open>
  A second representation records the calls themselves: the list of
  \<open>(code, length)\<close> pairs passed to \<^verbatim>\<open>AddPathLength\<close> since the last reset, in order.
\<close>

definition AddPathLength_calls :: "((int \<times> real) list) PathLengthList_ops" where
  "AddPathLength_calls =
     \<lparr> NewPathLengthList = (\<lambda>pdglist. []),
       SetAllToZero = (\<lambda>calls. []),
       AddPathLength = (\<lambda>pdgc pl calls. calls @ [(pdgc, pl)]) \<rparr>"

text \<open>
  Modelled from the spec: \<^verbatim>\<open>PDGCodeList\<close> is absent from the sources. The spec makes the
  registered isotopes the collection of all identifiers met while walking the volumes;
  it is a list of codes, \<^verbatim>\<open>push_back\<close> appends and \<^verbatim>\<open>ExistsInPDGCodeList\<close> is
  membership.
\<close>

definition push_back :: "int \<Rightarrow> int list \<Rightarrow> int list" where
  "push_back pdgc l = l @ [pdgc]"

definition ExistsInPDGCodeList :: "int list \<Rightarrow> int \<Rightarrow> bool" where
  "ExistsInPDGCodeList l pdgc = (pdgc \<in> set l)"

section \<open>The analyzer object\<close>

record ('g, 'pl) ROOTGeomAnalyzer =
  fGeometry :: "'g option"
  fCurrPathLengthList :: 'pl
  fCurrPDGCodeList :: "int list"
  fMaterial :: int
  fCurrVertex :: vec3

section \<open>Stepping to the next boundary\<close>

text \<open>
  The idiom repeated in every traversal:
  \<^verbatim>\<open>FindNextBoundary(); step=GetStep(); while(!IsEntering()) { Step(); step=GetStep(); }\<close>.
  The value of \<^verbatim>\<open>step\<close> afterwards is \<open>GetStep\<close> of the state returned here. The loop
  has no bound, so the result is \<open>None\<close> when it never ends.
\<close>

partial_function (option) StepUntilEntering :: "'g externals \<Rightarrow> 'g \<Rightarrow> 'g option" where
  "StepUntilEntering G g =
     (if IsEntering G g then Some g else StepUntilEntering G (Step G g))"

definition NextBoundary :: "'g externals \<Rightarrow> 'g \<Rightarrow> 'g option" where
  "NextBoundary G g = StepUntilEntering G (FindNextBoundary G g)"

section \<open>The local state of a traversal\<close>

record 'g marcher =
  geo :: 'g
  xx :: real
  yy :: real
  zz :: real
  FlagNotInYet :: bool
  condition :: bool

record ('g, 'pl) pl_marcher = "'g marcher" +
  lengths :: 'pl

datatype 'a flow = Break 'a | Next 'a

text \<open>\<^verbatim>\<open>xx+=step * p.Px()/p.P();\<close> and the same for \<^verbatim>\<open>yy\<close>, \<^verbatim>\<open>zz\<close>.\<close>

definition advance :: "TLorentzVector \<Rightarrow> real \<Rightarrow> ('g, 'm) marcher_scheme \<Rightarrow> ('g, 'm) marcher_scheme" where
  "advance p step st =
     st\<lparr> xx := xx st + step * Px p / P p,
         yy := yy st + step * Py p / P p,
         zz := zz st + step * Pz p / P p \<rparr>"

section \<open>ComputePathLengths\<close>

text \<open>
  The element loop of the mixture branch (lines 435 to 458): for each element the
  boundary is searched again from the state the manager was left in, the step found is
  added for the element's code, and the cursor is advanced by it.
\<close>

fun mixture_elements ::
  "'g externals \<Rightarrow> 'pl PathLengthList_ops \<Rightarrow> TLorentzVector \<Rightarrow> TGeoElement list \<Rightarrow>
   ('g, 'pl) pl_marcher \<Rightarrow> ('g, 'pl) pl_marcher option" where
  "mixture_elements G L p [] st = Some st"
| "mixture_elements G L p (ele # els) st =
     (case NextBoundary G (geo st) of
        None \<Rightarrow> None
      | Some g' \<Rightarrow>
          mixture_elements G L p els
            (advance p (GetStep G g')
               (st\<lparr> geo := g',
                    lengths := AddPathLength L (IonPdgCode G (to_int (ElemA ele)) (ElemZ ele))
                                 (GetStep G g') (lengths st) \<rparr>)))"

text \<open>
  The last block of the loop body (lines 429 to 481), reached with a material: a
  mixture runs the element loop, any other material adds one step.
\<close>

definition add_material ::
  "'g externals \<Rightarrow> 'pl PathLengthList_ops \<Rightarrow> TLorentzVector \<Rightarrow> TGeoMaterial \<Rightarrow>
   ('g, 'pl) pl_marcher \<Rightarrow> ('g, 'pl) pl_marcher option" where
  "add_material G L p mat st =
     (case GetElements mat of
        Some els \<Rightarrow> mixture_elements G L p els st
      | None \<Rightarrow>
          (case NextBoundary G (geo st) of
             None \<Rightarrow> None
           | Some g' \<Rightarrow>
               Some (advance p (GetStep G g')
                       (st\<lparr> geo := g',
                            lengths := AddPathLength L
                              (IonPdgCode G (to_int (GetA mat)) (to_int (GetZ mat)))
                              (GetStep G g') (lengths st) \<rparr>))))"

text \<open>
  One pass through the body of the \<^verbatim>\<open>while\<close> loop (lines 373 to 482). The logging
  statements dereference \<^verbatim>\<open>current\<close>, \<^verbatim>\<open>med\<close> and \<^verbatim>\<open>mat\<close> before the code tests
  them, so a null pointer there is a fault and the tests that follow never see one.
\<close>

definition ComputePathLengths_body ::
  "'g externals \<Rightarrow> 'pl PathLengthList_ops \<Rightarrow> TLorentzVector \<Rightarrow>
   ('g, 'pl) pl_marcher \<Rightarrow> (('g, 'pl) pl_marcher flow) run" where
  "ComputePathLengths_body G L p st =
     (let xyz = (xx st, yy st, zz st);
          g = FindNode G xyz (SetCurrentPoint G xyz (geo st))
      in case GetCurrentVolume G g of
           None \<Rightarrow> Some (Inl NullDereference)
         | Some current \<Rightarrow>
            (if IsOutside G g then
               (if FlagNotInYet st then Some (Inr (Break (st\<lparr> geo := g, condition := False \<rparr>)))
                else (case NextBoundary G g of
                        None \<Rightarrow> None
                      | Some g' \<Rightarrow>
                          Some (Inr (Next (advance p (GetStep G g')
                                             (st\<lparr> geo := g', condition := False \<rparr>))))))
             else
               (case GetMedium current of
                  None \<Rightarrow> Some (Inl NullDereference)
                | Some med \<Rightarrow>
                    (case GetMaterial med of
                       None \<Rightarrow> Some (Inl NullDereference)
                     | Some mat \<Rightarrow>
                         (case add_material G L p mat
                                 (st\<lparr> geo := g, FlagNotInYet := True, condition := True \<rparr>) of
                            None \<Rightarrow> None
                          | Some st' \<Rightarrow> Some (Inr (Next st')))))))"

text \<open>The \<^verbatim>\<open>while((!FlagNotInYet) || condition)\<close> loop; it has no iteration cap.\<close>

partial_function (option) ComputePathLengths_loop ::
  "'g externals \<Rightarrow> 'pl PathLengthList_ops \<Rightarrow> TLorentzVector \<Rightarrow>
   ('g, 'pl) pl_marcher \<Rightarrow> (fault + ('g, 'pl) pl_marcher) option" where
  "ComputePathLengths_loop G L p st =
     (if \<not> FlagNotInYet st \<or> condition st then
        (case ComputePathLengths_body G L p st of
           None \<Rightarrow> None
         | Some (Inl f) \<Rightarrow> Some (Inl f)
         | Some (Inr (Break st')) \<Rightarrow> Some (Inr st')
         | Some (Inr (Next st')) \<Rightarrow> ComputePathLengths_loop G L p st')
      else Some (Inr st))"

text \<open>
  The member function (lines 343 to 485). The first thing it computes after the reset is
  \<^verbatim>\<open>p.Px()/p.P()\<close>, with no test of \<^verbatim>\<open>p.P()\<close>; \<^verbatim>\<open>fGeometry\<close> is used without a test.
  It returns the analyzer as it leaves it and the list it hands back by reference.
\<close>

definition ComputePathLengths ::
  "'g externals \<Rightarrow> 'pl PathLengthList_ops \<Rightarrow> ('g, 'pl) ROOTGeomAnalyzer \<Rightarrow>
   TLorentzVector \<Rightarrow> TLorentzVector \<Rightarrow> (('g, 'pl) ROOTGeomAnalyzer \<times> 'pl) run" where
  "ComputePathLengths G L a x p =
     (if P p = 0 then Some (Inl DivisionByZero)
      else case fGeometry a of
             None \<Rightarrow> Some (Inl NullDereference)
           | Some g \<Rightarrow>
               (case ComputePathLengths_loop G L p
                       \<lparr> geo = SetCurrentDirection G (Px p / P p, Py p / P p, Pz p / P p) g,
                         xx = fX x, yy = fY x, zz = fZ x,
                         FlagNotInYet = False, condition = True,
                         lengths = SetAllToZero L (fCurrPathLengthList a) \<rparr> of
                  None \<Rightarrow> None
                | Some (Inl f) \<Rightarrow> Some (Inl f)
                | Some (Inr st) \<Rightarrow>
                    Some (Inr (a\<lparr> fGeometry := Some (geo st),
                                  fCurrPathLengthList := lengths st \<rparr>, lengths st))))"

section \<open>ComputeMaxPathLength\<close>

record 'g max_marcher = "'g marcher" +
  Length :: real

text \<open>\<^verbatim>\<open>xx+=step * direction[0];\<close> and the same for \<^verbatim>\<open>yy\<close>, \<^verbatim>\<open>zz\<close>.\<close>

fun advance_along :: "vec3 \<Rightarrow> real \<Rightarrow> ('g, 'm) marcher_scheme \<Rightarrow> ('g, 'm) marcher_scheme" where
  "advance_along (u, v, w) step st =
     st\<lparr> xx := xx st + step * u, yy := yy st + step * v, zz := zz st + step * w \<rparr>"

text \<open>
  One pass through the loop body (lines 772 to 840), after \<^verbatim>\<open>counterloop++\<close>. There
  is no logging here: a null \<^verbatim>\<open>current\<close> counts as outside
  (\<open>ComputeMaxPathLength_outside\<close> is the block of lines 785 to 802), a null \<^verbatim>\<open>med\<close>
  or \<^verbatim>\<open>mat\<close> clears \<^verbatim>\<open>condition\<close> (\<open>material_of\<close> is \<open>None\<close> then). The
  material's own \<^verbatim>\<open>GetA()\<close> and \<^verbatim>\<open>GetZ()\<close> are used, also for a mixture.
\<close>

definition material_of :: "TGeoVolume \<Rightarrow> TGeoMaterial option" where
  "material_of current =
     (case GetMedium current of None \<Rightarrow> None | Some med \<Rightarrow> GetMaterial med)"

definition ComputeMaxPathLength_outside ::
  "'g externals \<Rightarrow> vec3 \<Rightarrow> 'g \<Rightarrow> 'g max_marcher \<Rightarrow> ('g max_marcher flow) option" where
  "ComputeMaxPathLength_outside G direction g st =
     (if FlagNotInYet st then Some (Break (st\<lparr> geo := g, condition := False \<rparr>))
      else (case NextBoundary G g of
              None \<Rightarrow> None
            | Some g' \<Rightarrow>
                Some (Next (advance_along direction (GetStep G g')
                              (st\<lparr> geo := g', condition := False \<rparr>)))))"

definition ComputeMaxPathLength_body ::
  "'g externals \<Rightarrow> vec3 \<Rightarrow> int \<Rightarrow> 'g max_marcher \<Rightarrow> ('g max_marcher flow) option" where
  "ComputeMaxPathLength_body G direction pdgc st =
     (let xyz = (xx st, yy st, zz st);
          g = FindNode G xyz (SetCurrentPoint G xyz (geo st))
      in case GetCurrentVolume G g of
           None \<Rightarrow> ComputeMaxPathLength_outside G direction g st
         | Some current \<Rightarrow>
            (if IsOutside G g then ComputeMaxPathLength_outside G direction g st
             else
               (case material_of current of
                  None \<Rightarrow> Some (Next (st\<lparr> geo := g, FlagNotInYet := True, condition := False \<rparr>))
                | Some mat \<Rightarrow>
                    (case NextBoundary G g of
                       None \<Rightarrow> None
                     | Some g' \<Rightarrow>
                         Some (Next (advance_along direction (GetStep G g')
                           (st\<lparr> geo := g', FlagNotInYet := True, condition := True,
                                Length := (if IonPdgCode G (to_int (GetA mat)) (to_int (GetZ mat)) = pdgc
                                           then Length st + GetStep G g' else Length st) \<rparr>)))))))"

text \<open>
  The loop \<^verbatim>\<open>while(((!FlagNotInYet) || condition) && counterloop <100)\<close>;
  \<open>counterloop\<close> is returned with the final state.
\<close>

function ComputeMaxPathLength_loop ::
  "'g externals \<Rightarrow> vec3 \<Rightarrow> int \<Rightarrow> nat \<Rightarrow> 'g max_marcher \<Rightarrow> (nat \<times> 'g max_marcher) option" where
  "ComputeMaxPathLength_loop G direction pdgc counterloop st =
     (if (\<not> FlagNotInYet st \<or> condition st) \<and> counterloop < 100 then
        (case ComputeMaxPathLength_body G direction pdgc st of
           None \<Rightarrow> None
         | Some (Break st') \<Rightarrow> Some (Suc counterloop, st')
         | Some (Next st') \<Rightarrow> ComputeMaxPathLength_loop G direction pdgc (Suc counterloop) st')
      else Some (counterloop, st))"
  by pat_completeness auto
termination
  by (relation "measure (\<lambda>(G, direction, pdgc, counterloop, st). 100 - counterloop)") auto

declare ComputeMaxPathLength_loop.simps [simp del]

text \<open>
  The member function (lines 751 to 843). It is called from \<^verbatim>\<open>SetVtxMaterial\<close> only,
  after the test of \<^verbatim>\<open>fGeometry\<close>, so it is given the manager's state; it returns
  that state as it leaves it, and \<^verbatim>\<open>Length\<close>.
\<close>

definition ComputeMaxPathLength ::
  "'g externals \<Rightarrow> 'g \<Rightarrow> vec3 \<Rightarrow> vec3 \<Rightarrow> int \<Rightarrow> ('g \<times> real) option" where
  "ComputeMaxPathLength G g XYZ direction pdgc =
     (case ComputeMaxPathLength_loop G direction pdgc 0
             \<lparr> geo = SetCurrentDirection G direction g,
               xx = fst XYZ, yy = fst (snd XYZ), zz = snd (snd XYZ),
               FlagNotInYet = False, condition = True, Length = 0 \<rparr> of
        None \<Rightarrow> None
      | Some (counterloop, st) \<Rightarrow> Some (geo st, Length st))"

section \<open>SetVtxMaterial\<close>

text \<open>
  The process-wide random generator is a parameter: \<open>rnd k\<close> is the value of the
  \<open>k\<close>-th call of \<^verbatim>\<open>Rndm()\<close>, and the number of calls made so far is part of the
  state.
\<close>

record 'g sampling =
  manager :: 'g
  drawn :: nat
  MaxPath :: real

datatype face = TopFace | BottomFace | LeftFace | RightFace | BackFace | FrontFace

definition maxPoints :: nat where "maxPoints = 200"
definition maxRays :: nat where "maxRays = 200"

text \<open>The point drawn on a face from two random numbers, in the order of the calls.\<close>

fun face_point :: "face \<Rightarrow> TGeoBBox \<Rightarrow> real \<Rightarrow> real \<Rightarrow> vec3" where
  "face_point f box r1 r2 =
     (case GetOrigin box of (ox, oy, oz) \<Rightarrow>
        (let dx = GetDX box; dy = GetDY box; dz = GetDZ box in
         case f of
           TopFace \<Rightarrow> (ox - dx + 2 * dx * r1, oy + dy, oz - dz + 2 * dz * r2)
         | BottomFace \<Rightarrow> (ox - dx + 2 * dx * r1, oy - dy, oz - dz + 2 * dz * r2)
         | LeftFace \<Rightarrow> (ox - dx, oy - dy + 2 * dy * r1, oz - dz + 2 * dz * r2)
         | RightFace \<Rightarrow> (ox + dx, oy - dy + 2 * dy * r1, oz - dz + 2 * dz * r2)
         | BackFace \<Rightarrow> (ox - dx + 2 * dx * r1, oy - dy + 2 * dy * r2, oz - dz)
         | FrontFace \<Rightarrow> (ox - dx + 2 * dx * r1, oy - dy + 2 * dy * r2, oz + dz)))"

text \<open>The direction drawn on a face from three random numbers, before it is normalised.\<close>

fun face_direction :: "face \<Rightarrow> real \<Rightarrow> real \<Rightarrow> real \<Rightarrow> vec3" where
  "face_direction TopFace r1 r2 r3 = (- 0.5 + r1, - r2, - 0.5 + r3)"
| "face_direction BottomFace r1 r2 r3 = (- 0.5 + r1, r2, - 0.5 + r3)"
| "face_direction LeftFace r1 r2 r3 = (r1, - 0.5 + r2, - 0.5 + r3)"
| "face_direction RightFace r1 r2 r3 = (- r1, - 0.5 + r2, - 0.5 + r3)"
| "face_direction BackFace r1 r2 r3 = (- 0.5 + r1, - 0.5 + r2, r3)"
| "face_direction FrontFace r1 r2 r3 = (- 0.5 + r1, - 0.5 + r2, - r3)"

fun dirTot :: "vec3 \<Rightarrow> real" where
  "dirTot (u, v, w) = sqrt (u * u + v * v + w * w)"

fun normalised :: "vec3 \<Rightarrow> vec3" where
  "normalised (u, v, w) = (u / dirTot (u, v, w), v / dirTot (u, v, w), w / dirTot (u, v, w))"

text \<open>
  The inner loop \<^verbatim>\<open>while(Rgen<maxRays)\<close> of a face: three draws, the division by
  \<^verbatim>\<open>dirTot\<close> (not tested), one call of \<^verbatim>\<open>ComputeMaxPathLength\<close>, the update of
  \<^verbatim>\<open>MaxPath\<close>.
\<close>

function rays_loop ::
  "'g externals \<Rightarrow> (nat \<Rightarrow> real) \<Rightarrow> face \<Rightarrow> vec3 \<Rightarrow> int \<Rightarrow> nat \<Rightarrow> 'g sampling \<Rightarrow> ('g sampling) run" where
  "rays_loop G rnd f xyz pdgc Rgen s =
     (if Rgen < maxRays then
        (let direction = face_direction f (rnd (drawn s)) (rnd (drawn s + 1)) (rnd (drawn s + 2)) in
         if dirTot direction = 0 then Some (Inl DivisionByZero)
         else (case ComputeMaxPathLength G (manager s) xyz (normalised direction) pdgc of
                 None \<Rightarrow> None
               | Some (g', Length') \<Rightarrow>
                   rays_loop G rnd f xyz pdgc (Suc Rgen)
                     \<lparr> manager = g', drawn = drawn s + 3,
                       MaxPath = (if Length' > MaxPath s then Length' else MaxPath s) \<rparr>))
      else Some (Inr s))"
  by pat_completeness auto
termination
  by (relation "measure (\<lambda>(G, rnd, f, xyz, pdgc, Rgen, s). maxRays - Rgen)") auto

declare rays_loop.simps [simp del]

text \<open>The outer loop \<^verbatim>\<open>while(igen<maxPoints)\<close> of a face: two draws for the point.\<close>

function points_loop ::
  "'g externals \<Rightarrow> (nat \<Rightarrow> real) \<Rightarrow> face \<Rightarrow> TGeoBBox \<Rightarrow> int \<Rightarrow> nat \<Rightarrow> 'g sampling \<Rightarrow> ('g sampling) run" where
  "points_loop G rnd f box pdgc igen s =
     (if igen < maxPoints then
        (case rays_loop G rnd f (face_point f box (rnd (drawn s)) (rnd (drawn s + 1))) pdgc 0
                (s\<lparr> drawn := drawn s + 2 \<rparr>) of
           None \<Rightarrow> None
         | Some (Inl e) \<Rightarrow> Some (Inl e)
         | Some (Inr s') \<Rightarrow> points_loop G rnd f box pdgc (Suc igen) s')
      else Some (Inr s))"
  by pat_completeness auto
termination
  by (relation "measure (\<lambda>(G, rnd, f, box, pdgc, igen, s). maxPoints - igen)") auto

declare points_loop.simps [simp del]

text \<open>The six blocks of lines 142 to 316, in the order of the source.\<close>

fun faces_loop ::
  "'g externals \<Rightarrow> (nat \<Rightarrow> real) \<Rightarrow> TGeoBBox \<Rightarrow> int \<Rightarrow> face list \<Rightarrow> 'g sampling \<Rightarrow> ('g sampling) run" where
  "faces_loop G rnd box pdgc [] s = Some (Inr s)"
| "faces_loop G rnd box pdgc (f # fs) s =
     (case points_loop G rnd f box pdgc 0 s of
        None \<Rightarrow> None
      | Some (Inl e) \<Rightarrow> Some (Inl e)
      | Some (Inr s') \<Rightarrow> faces_loop G rnd box pdgc fs s')"

text \<open>
  The member function (lines 53 to 321). It returns the analyzer as it leaves it, the
  number of random draws made so far, and the value handed back.
\<close>

definition SetVtxMaterial ::
  "'g externals \<Rightarrow> (nat \<Rightarrow> real) \<Rightarrow> ('g, 'pl) ROOTGeomAnalyzer \<Rightarrow> nat \<Rightarrow> int \<Rightarrow>
   (('g, 'pl) ROOTGeomAnalyzer \<times> nat \<times> real) run" where
  "SetVtxMaterial G rnd a n pdgc =
     (case fGeometry a of
        None \<Rightarrow> Some (Inr (a\<lparr> fMaterial := - 1 \<rparr>, n, 0))
      | Some g \<Rightarrow>
          if \<not> ExistsInPDGCodeList (fCurrPDGCodeList a) pdgc
          then Some (Inr (a\<lparr> fMaterial := - 1 \<rparr>, n, 0))
          else
            (case find (\<lambda>TV. GetName TV = ''World'') (GetListOfVolumes G g) of
               None \<Rightarrow> Some (Inr (a\<lparr> fMaterial := - 1 \<rparr>, n, 0))
             | Some TVWorld \<Rightarrow>
                 (case faces_loop G rnd (GetShape TVWorld) pdgc
                         [TopFace, BottomFace, LeftFace, RightFace, BackFace, FrontFace]
                         \<lparr> manager = g, drawn = n, MaxPath = 0 \<rparr> of
                    None \<Rightarrow> None
                  | Some (Inl e) \<Rightarrow> Some (Inl e)
                  | Some (Inr s) \<Rightarrow>
                      Some (Inr (a\<lparr> fGeometry := Some (manager s), fMaterial := pdgc \<rparr>,
                                 drawn s, MaxPath s)))))"

section \<open>GenerateVertex\<close>

record 'g dist_marcher = "'g marcher" +
  dist :: real

text \<open>
  One pass through the body of the first loop (lines 529 to 606). It is the body of
  \<^verbatim>\<open>ComputePathLengths\<close> without the mixture branch, and it weighs the step with the
  density.
\<close>

definition GenerateVertex_body ::
  "'g externals \<Rightarrow> TLorentzVector \<Rightarrow> int \<Rightarrow> 'g dist_marcher \<Rightarrow> ('g dist_marcher flow) run" where
  "GenerateVertex_body G p tgtpdg st =
     (let xyz = (xx st, yy st, zz st);
          g = FindNode G xyz (SetCurrentPoint G xyz (geo st))
      in case GetCurrentVolume G g of
           None \<Rightarrow> Some (Inl NullDereference)
         | Some current \<Rightarrow>
            (if IsOutside G g then
               (if FlagNotInYet st then Some (Inr (Break (st\<lparr> geo := g, condition := False \<rparr>)))
                else (case NextBoundary G g of
                        None \<Rightarrow> None
                      | Some g' \<Rightarrow>
                          Some (Inr (Next (advance p (GetStep G g')
                                             (st\<lparr> geo := g', condition := False \<rparr>))))))
             else
               (case GetMedium current of
                  None \<Rightarrow> Some (Inl NullDereference)
                | Some med \<Rightarrow>
                    (case GetMaterial med of
                       None \<Rightarrow> Some (Inl NullDereference)
                     | Some mat \<Rightarrow>
                         (case NextBoundary G g of
                            None \<Rightarrow> None
                          | Some g' \<Rightarrow>
                              Some (Inr (Next (advance p (GetStep G g')
                                (st\<lparr> geo := g', FlagNotInYet := True, condition := True,
                                     dist := (if IonPdgCode G (to_int (GetA mat)) (to_int (GetZ mat)) = tgtpdg
                                              then dist st + GetStep G g' * GetDensity mat
                                              else dist st) \<rparr>)))))))))"

partial_function (option) GenerateVertex_loop ::
  "'g externals \<Rightarrow> TLorentzVector \<Rightarrow> int \<Rightarrow> 'g dist_marcher \<Rightarrow> (fault + 'g dist_marcher) option" where
  "GenerateVertex_loop G p tgtpdg st =
     (if \<not> FlagNotInYet st \<or> condition st then
        (case GenerateVertex_body G p tgtpdg st of
           None \<Rightarrow> None
         | Some (Inl f) \<Rightarrow> Some (Inl f)
         | Some (Inr (Break st')) \<Rightarrow> Some (Inr st')
         | Some (Inr (Next st')) \<Rightarrow> GenerateVertex_loop G p tgtpdg st')
      else Some (Inr st))"

record 'g vtx_marcher = "'g marcher" +
  distToVtx :: real

definition StepIncrease :: real where
  "StepIncrease = 0.001"

text \<open>
  One pass through the body of the second loop (lines 634 to 689): the cursor moves by
  \<^verbatim>\<open>StepIncrease\<close> first, then the point is resolved.
\<close>

definition GenerateVertex_step_body ::
  "'g externals \<Rightarrow> TLorentzVector \<Rightarrow> int \<Rightarrow> 'g vtx_marcher \<Rightarrow> ('g vtx_marcher flow) run" where
  "GenerateVertex_step_body G p tgtpdg st0 =
     (let st = advance p StepIncrease st0;
          xyz = (xx st, yy st, zz st);
          g = FindNode G xyz (SetCurrentPoint G xyz (geo st))
      in case GetCurrentVolume G g of
           None \<Rightarrow> Some (Inl NullDereference)
         | Some current \<Rightarrow>
            (if IsOutside G g then
               (if FlagNotInYet st then Some (Inr (Break (st\<lparr> geo := g, condition := False \<rparr>)))
                else Some (Inr (Next (st\<lparr> geo := g, condition := False \<rparr>))))
             else
               (case GetMedium current of
                  None \<Rightarrow> Some (Inl NullDereference)
                | Some med \<Rightarrow>
                    (case GetMaterial med of
                       None \<Rightarrow> Some (Inl NullDereference)
                     | Some mat \<Rightarrow>
                         Some (Inr (Next
                           (st\<lparr> geo := g, FlagNotInYet := True, condition := True,
                                distToVtx := (if IonPdgCode G (to_int (GetA mat)) (to_int (GetZ mat)) = tgtpdg
                                              then distToVtx st + StepIncrease * GetDensity mat
                                              else distToVtx st) \<rparr>)))))))"

partial_function (option) GenerateVertex_step_loop ::
  "'g externals \<Rightarrow> TLorentzVector \<Rightarrow> int \<Rightarrow> real \<Rightarrow> 'g vtx_marcher \<Rightarrow> (fault + 'g vtx_marcher) option" where
  "GenerateVertex_step_loop G p tgtpdg distVertex st =
     (if (\<not> FlagNotInYet st \<or> condition st) \<and> distToVtx st < distVertex then
        (case GenerateVertex_step_body G p tgtpdg st of
           None \<Rightarrow> None
         | Some (Inl f) \<Rightarrow> Some (Inl f)
         | Some (Inr (Break st')) \<Rightarrow> Some (Inr st')
         | Some (Inr (Next st')) \<Rightarrow> GenerateVertex_step_loop G p tgtpdg distVertex st')
      else Some (Inr st))"

text \<open>
  The member function (lines 488 to 700). It returns the analyzer as it leaves it, the
  number of random draws made so far, and the vertex handed back by reference.
\<close>

definition GenerateVertex ::
  "'g externals \<Rightarrow> (nat \<Rightarrow> real) \<Rightarrow> ('g, 'pl) ROOTGeomAnalyzer \<Rightarrow> nat \<Rightarrow>
   TLorentzVector \<Rightarrow> TLorentzVector \<Rightarrow> int \<Rightarrow> (('g, 'pl) ROOTGeomAnalyzer \<times> nat \<times> vec3) run" where
  "GenerateVertex G rnd a n x p tgtpdg =
     (case fGeometry a of
        None \<Rightarrow> Some (Inr (a\<lparr> fCurrVertex := (0, 0, 0) \<rparr>, n, (0, 0, 0)))
      | Some g \<Rightarrow>
          if P p = 0 then Some (Inl DivisionByZero)
          else
            (case GenerateVertex_loop G p tgtpdg
                    \<lparr> geo = SetCurrentDirection G (Px p / P p, Py p / P p, Pz p / P p) g,
                      xx = fX x, yy = fY x, zz = fZ x,
                      FlagNotInYet = False, condition = True, dist = 0 \<rparr> of
               None \<Rightarrow> None
             | Some (Inl f) \<Rightarrow> Some (Inl f)
             | Some (Inr st1) \<Rightarrow>
                 if dist st1 = 0
                 then Some (Inr (a\<lparr> fGeometry := Some (geo st1), fCurrVertex := (0, 0, 0) \<rparr>,
                                 n, (0, 0, 0)))
                 else
                   (case GenerateVertex_step_loop G p tgtpdg (rnd n * dist st1)
                           \<lparr> geo = geo st1, xx = fX x, yy = fY x, zz = fZ x,
                             FlagNotInYet = False, condition = True, distToVtx = 0 \<rparr> of
                      None \<Rightarrow> None
                    | Some (Inl f) \<Rightarrow> Some (Inl f)
                    | Some (Inr st2) \<Rightarrow>
                        (let st3 = advance p (- StepIncrease) st2;
                             vtx = (xx st3, yy st3, zz st3)
                         in Some (Inr (a\<lparr> fGeometry := Some (geo st3), fCurrVertex := vtx \<rparr>,
                                       Suc n, vtx))))))"

section \<open>BuildListOfTargetNuclei and Initialize\<close>

text \<open>The inner loop over the elements of a mixture (lines 731 to 739).\<close>

fun push_elements :: "'g externals \<Rightarrow> TGeoElement list \<Rightarrow> int list \<Rightarrow> int list" where
  "push_elements G [] l = l"
| "push_elements G (ele # els) l =
     push_elements G els (push_back (IonPdgCode G (to_int (ElemA ele)) (ElemZ ele)) l)"

text \<open>
  The loop over the volumes (lines 720 to 748); \<^verbatim>\<open>med\<close> and \<^verbatim>\<open>mat\<close> are used
  without a test.
\<close>

fun BuildListOfTargetNuclei_volumes ::
  "'g externals \<Rightarrow> TGeoVolume list \<Rightarrow> int list \<Rightarrow> fault + int list" where
  "BuildListOfTargetNuclei_volumes G [] l = Inr l"
| "BuildListOfTargetNuclei_volumes G (TV # LV) l =
     (case GetMedium TV of
        None \<Rightarrow> Inl NullDereference
      | Some med \<Rightarrow>
          (case GetMaterial med of
             None \<Rightarrow> Inl NullDereference
           | Some mat \<Rightarrow>
               (case GetElements mat of
                  Some els \<Rightarrow> BuildListOfTargetNuclei_volumes G LV (push_elements G els l)
                | None \<Rightarrow>
                    BuildListOfTargetNuclei_volumes G LV
                      (push_back (IonPdgCode G (to_int (GetA mat)) (to_int (GetZ mat))) l))))"

definition BuildListOfTargetNuclei :: "'g externals \<Rightarrow> 'g option \<Rightarrow> fault + int list" where
  "BuildListOfTargetNuclei G geom =
     (case geom of
        None \<Rightarrow> Inr []
      | Some g \<Rightarrow> BuildListOfTargetNuclei_volumes G (GetListOfVolumes G g) [])"

text \<open>
  \<^verbatim>\<open>Initialize\<close> (lines 323 to 336). \<open>imported\<close> is what \<^verbatim>\<open>TGeoManager::Import\<close>
  returned (null when the file could not be read); \<^verbatim>\<open>fMaterial\<close> is not assigned
  there, \<open>m0\<close> is the value it happens to hold.
\<close>

definition Initialize ::
  "'g externals \<Rightarrow> 'pl PathLengthList_ops \<Rightarrow> 'g option \<Rightarrow> int \<Rightarrow>
   fault + ('g, 'pl) ROOTGeomAnalyzer" where
  "Initialize G L imported m0 =
     (case BuildListOfTargetNuclei G imported of
        Inl f \<Rightarrow> Inl f
      | Inr pdglist \<Rightarrow>
          Inr \<lparr> fGeometry = imported,
                fCurrPathLengthList = NewPathLengthList L pdglist,
                fCurrPDGCodeList = pdglist,
                fMaterial = m0,
                fCurrVertex = (0, 0, 0) \<rparr>)"

section \<open>A geometry of one box\<close>

text \<open>
  Modelled from the spec: the geometry backend is external. This instance follows the
  contract of the spec's section 6 for a world that is one box \<open>W\<close> filled with one
  material: the navigation state is the current point and direction, a point is resolved
  to the region the ray is about to traverse, the step is the exact distance to the next
  boundary along the direction (\<open>Big\<close> when there is none), and every boundary search
  reports that it reaches a new region.
\<close>

record nav =
  nav_point :: vec3
  nav_dir :: vec3

definition Big :: real where
  "Big = 1000000000000000000000000000000"

definition axis_lo :: "real \<Rightarrow> real \<Rightarrow> real \<Rightarrow> real" where
  "axis_lo q D d =
     (if d = 0 then (if \<bar>q\<bar> \<le> D then - Big else Big)
      else min ((- D - q) / d) ((D - q) / d))"

definition axis_hi :: "real \<Rightarrow> real \<Rightarrow> real \<Rightarrow> real" where
  "axis_hi q D d =
     (if d = 0 then (if \<bar>q\<bar> \<le> D then Big else - Big)
      else max ((- D - q) / d) ((D - q) / d))"

fun box_enter :: "TGeoBBox \<Rightarrow> vec3 \<Rightarrow> vec3 \<Rightarrow> real" where
  "box_enter b (x, y, z) (u, v, w) =
     (case GetOrigin b of (ox, oy, oz) \<Rightarrow>
        max (axis_lo (x - ox) (GetDX b) u)
          (max (axis_lo (y - oy) (GetDY b) v) (axis_lo (z - oz) (GetDZ b) w)))"

fun box_leave :: "TGeoBBox \<Rightarrow> vec3 \<Rightarrow> vec3 \<Rightarrow> real" where
  "box_leave b (x, y, z) (u, v, w) =
     (case GetOrigin b of (ox, oy, oz) \<Rightarrow>
        min (axis_hi (x - ox) (GetDX b) u)
          (min (axis_hi (y - oy) (GetDY b) v) (axis_hi (z - oz) (GetDZ b) w)))"

definition box_contains :: "TGeoBBox \<Rightarrow> vec3 \<Rightarrow> vec3 \<Rightarrow> bool" where
  "box_contains b c d = (box_enter b c d \<le> 0 \<and> 0 < box_leave b c d)"

definition box_step :: "TGeoBBox \<Rightarrow> vec3 \<Rightarrow> vec3 \<Rightarrow> real" where
  "box_step b c d =
     (if box_contains b c d then box_leave b c d
      else if 0 < box_enter b c d \<and> box_enter b c d < box_leave b c d then box_enter b c d
      else Big)"

fun move :: "vec3 \<Rightarrow> real \<Rightarrow> vec3 \<Rightarrow> vec3" where
  "move (x, y, z) s (u, v, w) = (x + s * u, y + s * v, z + s * w)"

text \<open>
  Modelled from the spec: the member functions of the external geometry manager, for the
  world of one box \<open>W\<close>; the code function \<open>ion\<close> stands for \<^verbatim>\<open>pdg::IonPdgCode\<close>.
  \<^verbatim>\<open>Step\<close> moves the point by the step; no traversal calls it here, since every search
  reports a new region at once.
\<close>

definition box_world :: "(int \<Rightarrow> int \<Rightarrow> int) \<Rightarrow> TGeoVolume \<Rightarrow> nav externals" where
  "box_world ion W =
     \<lparr> SetCurrentDirection = (\<lambda>d g. g\<lparr> nav_dir := d \<rparr>),
       SetCurrentPoint = (\<lambda>c g. g\<lparr> nav_point := c \<rparr>),
       FindNode = (\<lambda>c g. g\<lparr> nav_point := c \<rparr>),
       GetCurrentVolume = (\<lambda>g. Some W),
       IsOutside = (\<lambda>g. \<not> box_contains (GetShape W) (nav_point g) (nav_dir g)),
       FindNextBoundary = (\<lambda>g. g),
       GetStep = (\<lambda>g. box_step (GetShape W) (nav_point g) (nav_dir g)),
       IsEntering = (\<lambda>g. True),
       Step = (\<lambda>g. g\<lparr> nav_point :=
                 move (nav_point g) (box_step (GetShape W) (nav_point g) (nav_dir g)) (nav_dir g) \<rparr>),
       GetListOfVolumes = (\<lambda>g. [W]),
       IonPdgCode = ion \<rparr>"

text \<open>The cube of the spec's scenario: half-extent 10 about the origin, one material.\<close>

definition cube_box :: TGeoBBox where
  "cube_box = \<lparr> GetDX = 10, GetDY = 10, GetDZ = 10, GetOrigin = (0, 0, 0) \<rparr>"

definition cube :: "TGeoMaterial \<Rightarrow> TGeoVolume" where
  "cube mat =
     \<lparr> GetName = ''World'',
       GetShape = cube_box,
       GetMedium = Some (TGeoMedium (Some mat)) \<rparr>"

definition isotope :: "real \<Rightarrow> real \<Rightarrow> real \<Rightarrow> TGeoMaterial" where
  "isotope a z rho = \<lparr> GetA = a, GetZ = z, GetDensity = rho, GetElements = None \<rparr>"

definition ray_origin :: TLorentzVector where
  "ray_origin = \<lparr> fX = - 20, fY = 0, fZ = 0, fE = 0 \<rparr>"

definition ray_momentum :: TLorentzVector where
  "ray_momentum = \<lparr> fX = 1, fY = 0, fZ = 0, fE = 1 \<rparr>"

definition nav0 :: nav where
  "nav0 = \<lparr> nav_point = (0, 0, 0), nav_dir = (0, 0, 1) \<rparr>"

text \<open>
  Modelled from the spec: \<^verbatim>\<open>pdg::IonPdgCode\<close> is absent from the sources. The spec
  only asks for an integer key derived from the mass number and the atomic number that
  identifies the pair; the concrete instances below use the layout \<open>1AAAZZZ000\<close>.
\<close>

definition ion_code :: "int \<Rightarrow> int \<Rightarrow> int" where
  "ion_code A Z = 1000000000 + A * 1000000 + Z * 1000"

definition zero_momentum :: TLorentzVector where
  "zero_momentum = \<lparr> fX = 0, fY = 0, fZ = 0, fE = 0 \<rparr>"

text \<open>The analyzer as \<open>Initialize\<close> leaves it on a cube of the isotope (16, 8).\<close>

definition cube_analyzer :: "(nav, int \<rightharpoonup> real) ROOTGeomAnalyzer" where
  "cube_analyzer =
     \<lparr> fGeometry = Some nav0,
       fCurrPathLengthList = [ion_code 16 8 \<mapsto> 0],
       fCurrPDGCodeList = [ion_code 16 8],
       fMaterial = 0,
       fCurrVertex = (0, 0, 0) \<rparr>"

text \<open>A random source that always returns one half.\<close>

definition half_rnd :: "nat \<Rightarrow> real" where
  "half_rnd k = 1 / 2"

section \<open>Changing the densities of a geometry\<close>

text \<open>
  \<open>with_densities f G\<close> is the geometry \<open>G\<close> in which every material the navigator
  reports has its density \<open>rho\<close> replaced by \<open>f rho\<close>; nothing else changes.
\<close>

definition with_density :: "(real \<Rightarrow> real) \<Rightarrow> TGeoVolume \<Rightarrow> TGeoVolume" where
  "with_density f TV =
     TV\<lparr> GetMedium :=
           map_option
             (\<lambda>med. TGeoMedium
                (map_option (\<lambda>mat. mat\<lparr> GetDensity := f (GetDensity mat) \<rparr>) (GetMaterial med)))
             (GetMedium TV) \<rparr>"

definition with_densities :: "(real \<Rightarrow> real) \<Rightarrow> 'g externals \<Rightarrow> 'g externals" where
  "with_densities f G =
     G\<lparr> GetCurrentVolume := (\<lambda>g. map_option (with_density f) (GetCurrentVolume G g)) \<rparr>"

section \<open>The trials of the estimator, as the spec words them\<close>

text \<open>
  The spec's description of the estimator (section 4.4), written down for comparison with
  \<open>SetVtxMaterial\<close>: a list of trials, each a surface point and a direction, and the
  running maximum of the bounded march over the list, starting from zero. The random
  numbers are taken from the source in the order of the calls: a point uses two draws and
  is followed by the three draws of each of its 200 directions, so a point spans 602
  draws and a face 120400.
\<close>

fun run_trials :: "'g externals \<Rightarrow> int \<Rightarrow> (vec3 \<times> vec3) list \<Rightarrow> 'g \<Rightarrow> real \<Rightarrow> ('g \<times> real) option" where
  "run_trials G pdgc [] g m = Some (g, m)"
| "run_trials G pdgc ((xyz, direction) # ts) g m =
     (case ComputeMaxPathLength G g xyz direction pdgc of
        None \<Rightarrow> None
      | Some (g', l) \<Rightarrow> run_trials G pdgc ts g' (if l > m then l else m))"

definition trial_point :: "(nat \<Rightarrow> real) \<Rightarrow> TGeoBBox \<Rightarrow> face \<Rightarrow> nat \<Rightarrow> nat \<Rightarrow> vec3" where
  "trial_point rnd box f n0 i = face_point f box (rnd (n0 + 602 * i)) (rnd (n0 + 602 * i + 1))"

definition trial_draw :: "(nat \<Rightarrow> real) \<Rightarrow> face \<Rightarrow> nat \<Rightarrow> nat \<Rightarrow> nat \<Rightarrow> vec3" where
  "trial_draw rnd f n0 i j =
     face_direction f (rnd (n0 + 602 * i + 2 + 3 * j)) (rnd (n0 + 602 * i + 2 + 3 * j + 1))
       (rnd (n0 + 602 * i + 2 + 3 * j + 2))"

definition face_trials :: "(nat \<Rightarrow> real) \<Rightarrow> TGeoBBox \<Rightarrow> face \<Rightarrow> nat \<Rightarrow> (vec3 \<times> vec3) list" where
  "face_trials rnd box f n0 =
     concat (map (\<lambda>i. map (\<lambda>j. (trial_point rnd box f n0 i, normalised (trial_draw rnd f n0 i j)))
                          [0..<200]) [0..<200])"

definition all_trials :: "(nat \<Rightarrow> real) \<Rightarrow> TGeoBBox \<Rightarrow> nat \<Rightarrow> (vec3 \<times> vec3) list" where
  "all_trials rnd box n =
     face_trials rnd box TopFace n @ face_trials rnd box BottomFace (n + 120400) @
     face_trials rnd box LeftFace (n + 240800) @ face_trials rnd box RightFace (n + 361200) @
     face_trials rnd box BackFace (n + 481600) @ face_trials rnd box FrontFace (n + 602000)"

text \<open>The trials of a list of faces, each face starting where the previous one ended.\<close>

fun faces_trials :: "(nat \<Rightarrow> real) \<Rightarrow> TGeoBBox \<Rightarrow> face list \<Rightarrow> nat \<Rightarrow> (vec3 \<times> vec3) list" where
  "faces_trials rnd box [] n = []"
| "faces_trials rnd box (f # fs) n = face_trials rnd box f n @ faces_trials rnd box fs (n + 120400)"

text \<open>
  A direction points to the interior across a face when its component along the face's
  normal does; a point is on a face when it has the face's fixed coordinate and lies
  within the half-extents in the other two.
\<close>

definition inward :: "face \<Rightarrow> vec3 \<Rightarrow> bool" where
  "inward f d =
     (case d of (u, v, w) \<Rightarrow>
        (case f of
           TopFace \<Rightarrow> v < 0 | BottomFace \<Rightarrow> 0 < v
         | LeftFace \<Rightarrow> 0 < u | RightFace \<Rightarrow> u < 0
         | BackFace \<Rightarrow> 0 < w | FrontFace \<Rightarrow> w < 0))"

definition on_face :: "face \<Rightarrow> TGeoBBox \<Rightarrow> vec3 \<Rightarrow> bool" where
  "on_face f box c =
     (case GetOrigin box of (ox, oy, oz) \<Rightarrow>
      (case c of (x, y, z) \<Rightarrow>
        (case f of
           TopFace \<Rightarrow> y = oy + GetDY box \<and> \<bar>x - ox\<bar> \<le> \<bar>GetDX box\<bar> \<and> \<bar>z - oz\<bar> \<le> \<bar>GetDZ box\<bar>
         | BottomFace \<Rightarrow> y = oy - GetDY box \<and> \<bar>x - ox\<bar> \<le> \<bar>GetDX box\<bar> \<and> \<bar>z - oz\<bar> \<le> \<bar>GetDZ box\<bar>
         | LeftFace \<Rightarrow> x = ox - GetDX box \<and> \<bar>y - oy\<bar> \<le> \<bar>GetDY box\<bar> \<and> \<bar>z - oz\<bar> \<le> \<bar>GetDZ box\<bar>
         | RightFace \<Rightarrow> x = ox + GetDX box \<and> \<bar>y - oy\<bar> \<le> \<bar>GetDY box\<bar> \<and> \<bar>z - oz\<bar> \<le> \<bar>GetDZ box\<bar>
         | BackFace \<Rightarrow> z = oz - GetDZ box \<and> \<bar>x - ox\<bar> \<le> \<bar>GetDX box\<bar> \<and> \<bar>y - oy\<bar> \<le> \<bar>GetDY box\<bar>
         | FrontFace \<Rightarrow> z = oz + GetDZ box \<and> \<bar>x - ox\<bar> \<le> \<bar>GetDX box\<bar> \<and> \<bar>y - oy\<bar> \<le> \<bar>GetDY box\<bar>)))"

section \<open>A cube of water\<close>

text \<open>
  A mixture of hydrogen and oxygen; the mixture's own \<^verbatim>\<open>GetA()\<close> and \<^verbatim>\<open>GetZ()\<close> are the
  weighted means. The analyzer is the one \<open>Initialize\<close> leaves on the cube of water: the
  registered codes are those of the elements, with the mass numbers truncated.
\<close>

definition water :: TGeoMaterial where
  "water = \<lparr> GetA = 14.32, GetZ = 7.22, GetDensity = 1,
       GetElements = Some [\<lparr> ElemA = 1.00794, ElemZ = 1 \<rparr>, \<lparr> ElemA = 15.9994, ElemZ = 8 \<rparr>] \<rparr>"

definition water_analyzer :: "(nav, int \<rightharpoonup> real) ROOTGeomAnalyzer" where
  "water_analyzer =
     \<lparr> fGeometry = Some nav0,
       fCurrPathLengthList = [ion_code 1 1 \<mapsto> 0, ion_code 15 8 \<mapsto> 0],
       fCurrPDGCodeList = [ion_code 1 1, ion_code 15 8],
       fMaterial = 0,
       fCurrVertex = (0, 0, 0) \<rparr>"

section \<open>Codes of elements and materials\<close>

text \<open>The code \<open>ComputePathLengths\<close> and \<open>BuildListOfTargetNuclei\<close> compute for an element.\<close>

definition element_code :: "'g externals \<Rightarrow> TGeoElement \<Rightarrow> int" where
  "element_code G ele = IonPdgCode G (to_int (ElemA ele)) (ElemZ ele)"

text \<open>The codes of a material: those of its elements for a mixture, its own otherwise.\<close>

definition material_codes :: "'g externals \<Rightarrow> TGeoMaterial \<Rightarrow> int set" where
  "material_codes G mat =
     (case GetElements mat of
        Some els \<Rightarrow> (\<lambda>ele. IonPdgCode G (to_int (ElemA ele)) (ElemZ ele)) ` set els
      | None \<Rightarrow> {IonPdgCode G (to_int (GetA mat)) (to_int (GetZ mat))})"

text \<open>
  The analyzer on the cube of the isotope (16, 8) with the list that records the calls,
  and the local state of \<open>ComputePathLengths\<close> when the cursor of the scenario's ray has
  reached the cube of water at \<open>x = - 10\<close>.
\<close>

definition cube_calls_analyzer :: "(nav, (int \<times> real) list) ROOTGeomAnalyzer" where
  "cube_calls_analyzer =
     \<lparr> fGeometry = Some nav0,
       fCurrPathLengthList = [],
       fCurrPDGCodeList = [ion_code 16 8],
       fMaterial = 0,
       fCurrVertex = (0, 0, 0) \<rparr>"

definition water_body_state :: "(nav, (int \<times> real) list) pl_marcher" where
  "water_body_state =
     \<lparr> geo = \<lparr> nav_point = (- 20, 0, 0), nav_dir = (1, 0, 0) \<rparr>, xx = - 10, yy = 0, zz = 0,
       FlagNotInYet = False, condition = False, lengths = [] \<rparr>"

section \<open>The passes of the traversal\<close>

text \<open>The state of the manager once the cursor's point has been set and its node found.\<close>

definition resolved :: "'g externals \<Rightarrow> ('g, 'm) marcher_scheme \<Rightarrow> 'g" where
  "resolved G st =
     FindNode G (xx st, yy st, zz st) (SetCurrentPoint G (xx st, yy st, zz st) (geo st))"

text \<open>
  The state after \<open>n\<close> passes through the body of the loop of \<open>ComputePathLengths\<close> that
  all ended at the bottom of the body (none left by \<^verbatim>\<open>break\<close>, none faulted, none hung
  in a stepping loop).
\<close>

fun ComputePathLengths_passes ::
  "'g externals \<Rightarrow> 'pl PathLengthList_ops \<Rightarrow> TLorentzVector \<Rightarrow> nat \<Rightarrow>
   ('g, 'pl) pl_marcher \<Rightarrow> ('g, 'pl) pl_marcher option" where
  "ComputePathLengths_passes G L p 0 st = Some st"
| "ComputePathLengths_passes G L p (Suc n) st =
     (case ComputePathLengths_body G L p st of
        Some (Inr (Next st')) \<Rightarrow> ComputePathLengths_passes G L p n st'
      | _ \<Rightarrow> None)"

text \<open>The local state in which \<open>ComputePathLengths\<close> enters its loop for the scenario's ray.\<close>

definition cube_start :: "(nav, int \<rightharpoonup> real) pl_marcher" where
  "cube_start =
     \<lparr> geo = \<lparr> nav_point = (0, 0, 0), nav_dir = (1, 0, 0) \<rparr>, xx = - 20, yy = 0, zz = 0,
       FlagNotInYet = False, condition = True, lengths = [ion_code 16 8 \<mapsto> 0] \<rparr>"

section \<open>Evaluation lemmas\<close>

lemma P_ray_momentum [simp]:
  "P ray_momentum = 1" "Px ray_momentum = 1" "Py ray_momentum = 0" "Pz ray_momentum = 0"
  by (simp_all add: P_def Px_def Py_def Pz_def ray_momentum_def)

lemma P_zero_momentum [simp]: "P zero_momentum = 0"
  by (simp add: P_def zero_momentum_def)

lemma ray_origin_sel [simp]: "fX ray_origin = - 20" "fY ray_origin = 0" "fZ ray_origin = 0"
  by (simp_all add: ray_origin_def)

lemma to_int_numeral [simp]: "to_int (numeral k) = numeral k" "to_int 0 = 0" "to_int 1 = 1"
  by (simp_all add: to_int_def)

lemma isotope_sel [simp]:
  "GetA (isotope a z rho) = a" "GetZ (isotope a z rho) = z"
  "GetDensity (isotope a z rho) = rho" "GetElements (isotope a z rho) = None"
  by (simp_all add: isotope_def)

lemma cube_sel [simp]:
  "GetName (cube m) = ''World''"
  "GetMedium (cube m) = Some (TGeoMedium (Some m))"
  "GetShape (cube m) = cube_box"
  by (simp_all add: cube_def)

lemma box_world_sel [simp]:
  "SetCurrentDirection (box_world ion W) d g = g\<lparr> nav_dir := d \<rparr>"
  "SetCurrentPoint (box_world ion W) c g = g\<lparr> nav_point := c \<rparr>"
  "FindNode (box_world ion W) c g = g\<lparr> nav_point := c \<rparr>"
  "GetCurrentVolume (box_world ion W) g = Some W"
  "IsOutside (box_world ion W) g = (\<not> box_contains (GetShape W) (nav_point g) (nav_dir g))"
  "FindNextBoundary (box_world ion W) g = g"
  "GetStep (box_world ion W) g = box_step (GetShape W) (nav_point g) (nav_dir g)"
  "IsEntering (box_world ion W) g"
  "GetListOfVolumes (box_world ion W) g = [W]"
  "IonPdgCode (box_world ion W) = ion"
  by (simp_all add: box_world_def)

lemma NextBoundary_box_world [simp]: "NextBoundary (box_world ion W) g = Some g"
  by (simp add: NextBoundary_def StepUntilEntering.simps)

text \<open>The ray of the scenario meets the cube at \<open>x = - 10\<close> and leaves it at \<open>x = 10\<close>.\<close>

lemma cube_before [simp]:
  "\<not> box_contains cube_box (- 20, 0, 0) (1, 0, 0)"
  "box_step cube_box (- 20, 0, 0) (1, 0, 0) = 10"
  by (simp_all add: box_step_def box_contains_def axis_lo_def axis_hi_def Big_def cube_box_def)

lemma cube_within [simp]:
  "box_contains cube_box (- 10, 0, 0) (1, 0, 0)"
  "box_step cube_box (- 10, 0, 0) (1, 0, 0) = 20"
  by (simp_all add: box_step_def box_contains_def axis_lo_def axis_hi_def Big_def cube_box_def)

lemma cube_after [simp]:
  "\<not> box_contains cube_box (10, 0, 0) (1, 0, 0)"
  by (simp add: box_contains_def axis_lo_def axis_hi_def Big_def cube_box_def)

lemma ComputePathLengths_loop_Next:
  "\<not> FlagNotInYet st \<or> condition st \<Longrightarrow>
   ComputePathLengths_body G L p st = Some (Inr (Next st')) \<Longrightarrow>
   ComputePathLengths_loop G L p st = ComputePathLengths_loop G L p st'"
  by (subst ComputePathLengths_loop.simps) simp

lemma ComputePathLengths_loop_Break:
  "\<not> FlagNotInYet st \<or> condition st \<Longrightarrow>
   ComputePathLengths_body G L p st = Some (Inr (Break st')) \<Longrightarrow>
   ComputePathLengths_loop G L p st = Some (Inr st')"
  by (subst ComputePathLengths_loop.simps) simp

lemma cube_body_before:
  "ComputePathLengths_body (box_world ion (cube m)) L ray_momentum
     \<lparr> geo = \<lparr> nav_point = c, nav_dir = (1, 0, 0) \<rparr>, xx = - 20, yy = 0, zz = 0,
       FlagNotInYet = False, condition = True, lengths = l \<rparr> =
   Some (Inr (Next \<lparr> geo = \<lparr> nav_point = (- 20, 0, 0), nav_dir = (1, 0, 0) \<rparr>,
                     xx = - 10, yy = 0, zz = 0,
                     FlagNotInYet = False, condition = False, lengths = l \<rparr>))"
  unfolding ComputePathLengths_body_def Let_def by (simp add: advance_def)

lemma cube_body_within:
  "ComputePathLengths_body (box_world ion (cube (isotope a z rho))) L ray_momentum
     \<lparr> geo = \<lparr> nav_point = c, nav_dir = (1, 0, 0) \<rparr>, xx = - 10, yy = 0, zz = 0,
       FlagNotInYet = fl, condition = cd, lengths = l \<rparr> =
   Some (Inr (Next \<lparr> geo = \<lparr> nav_point = (- 10, 0, 0), nav_dir = (1, 0, 0) \<rparr>,
                     xx = 10, yy = 0, zz = 0,
                     FlagNotInYet = True, condition = True,
                     lengths = AddPathLength L (ion (to_int a) (to_int z)) 20 l \<rparr>))"
  unfolding ComputePathLengths_body_def Let_def add_material_def by (simp add: advance_def)

lemma cube_body_after:
  "ComputePathLengths_body (box_world ion (cube m)) L ray_momentum
     \<lparr> geo = \<lparr> nav_point = c, nav_dir = (1, 0, 0) \<rparr>, xx = 10, yy = 0, zz = 0,
       FlagNotInYet = True, condition = cd, lengths = l \<rparr> =
   Some (Inr (Break \<lparr> geo = \<lparr> nav_point = (10, 0, 0), nav_dir = (1, 0, 0) \<rparr>,
                      xx = 10, yy = 0, zz = 0,
                      FlagNotInYet = True, condition = False, lengths = l \<rparr>))"
  unfolding ComputePathLengths_body_def Let_def by simp

lemma cube_loop:
  "ComputePathLengths_loop (box_world ion (cube (isotope a z rho))) L ray_momentum
     \<lparr> geo = \<lparr> nav_point = c, nav_dir = (1, 0, 0) \<rparr>, xx = - 20, yy = 0, zz = 0,
       FlagNotInYet = False, condition = True, lengths = l \<rparr> =
   Some (Inr \<lparr> geo = \<lparr> nav_point = (10, 0, 0), nav_dir = (1, 0, 0) \<rparr>,
               xx = 10, yy = 0, zz = 0,
               FlagNotInYet = True, condition = False,
               lengths = AddPathLength L (ion (to_int a) (to_int z)) 20 l \<rparr>)"
  apply (subst ComputePathLengths_loop_Next [OF _ cube_body_before], simp)
  apply (subst ComputePathLengths_loop_Next [OF _ cube_body_within], simp)
  apply (subst ComputePathLengths_loop_Break [OF _ cube_body_after], simp)
  apply simp
  done

lemma cube_ComputePathLengths:
  "ComputePathLengths (box_world ion (cube (isotope a z rho))) L
     \<lparr> fGeometry = Some g, fCurrPathLengthList = l, fCurrPDGCodeList = codes,
       fMaterial = m0, fCurrVertex = v \<rparr> ray_origin ray_momentum =
   Some (Inr (\<lparr> fGeometry = Some \<lparr> nav_point = (10, 0, 0), nav_dir = (1, 0, 0) \<rparr>,
                fCurrPathLengthList =
                  AddPathLength L (ion (to_int a) (to_int z)) 20 (SetAllToZero L l),
                fCurrPDGCodeList = codes, fMaterial = m0, fCurrVertex = v \<rparr>,
              AddPathLength L (ion (to_int a) (to_int z)) 20 (SetAllToZero L l)))"
proof -
  obtain c d where g: "g = \<lparr> nav_point = c, nav_dir = d \<rparr>"
    by (cases g) simp
  show ?thesis
    unfolding ComputePathLengths_def by (simp add: g cube_loop)
qed

lemma cube_Initialize:
  "Initialize (box_world ion (cube (isotope a z rho))) L (Some g) m0 =
   Inr \<lparr> fGeometry = Some g,
         fCurrPathLengthList = NewPathLengthList L [ion (to_int a) (to_int z)],
         fCurrPDGCodeList = [ion (to_int a) (to_int z)],
         fMaterial = m0, fCurrVertex = (0, 0, 0) \<rparr>"
  by (simp add: Initialize_def BuildListOfTargetNuclei_def push_back_def)

lemma PathLengthList_sel [simp]:
  "NewPathLengthList PathLengthList pdglist = (\<lambda>k. if k \<in> set pdglist then Some 0 else None)"
  "SetAllToZero PathLengthList m = (\<lambda>k. if m k = None then None else Some 0)"
  "AddPathLength PathLengthList pdgc pl m =
     (case m pdgc of None \<Rightarrow> m | Some v \<Rightarrow> m(pdgc \<mapsto> v + pl))"
  by (simp_all add: PathLengthList_def)

section \<open>The concrete scenario of the cube\<close>

text \<open>
  Claim C2. The geometry is one cube of the isotope with A = 16, Z = 8 and density 1,
  centred at the origin with half-extent 10; the analyzer is initialised on it. For the
  ray from (-20, 0, 0) along (1, 0, 0), \<open>ComputePathLengths\<close> returns the list with the
  single entry 20 for the code of (16, 8), whatever the code function and the state the
  navigator starts from.
\<close>

theorem cube_scenario_path_lengths:
  "\<exists>a a'. Initialize (box_world ion (cube (isotope 16 8 1))) PathLengthList (Some g) m0 = Inr a \<and>
     ComputePathLengths (box_world ion (cube (isotope 16 8 1))) PathLengthList a
       ray_origin ray_momentum = Some (Inr (a', [ion 16 8 \<mapsto> 20]))"
proof -
  have "AddPathLength PathLengthList (ion 16 8) 20
          (SetAllToZero PathLengthList (NewPathLengthList PathLengthList [ion 16 8])) =
        [ion 16 8 \<mapsto> 20]"
    by (auto simp add: fun_eq_iff)
  then show ?thesis
    by (simp add: cube_Initialize cube_ComputePathLengths)
qed

theorem cube_scenario_path_lengths_witness:
  "\<exists>a a'. Initialize (box_world ion_code (cube (isotope 16 8 1))) PathLengthList (Some nav0) 0 = Inr a \<and>
     ComputePathLengths (box_world ion_code (cube (isotope 16 8 1))) PathLengthList a
       ray_origin ray_momentum = Some (Inr (a', [1016008000 \<mapsto> 20]))"
  using cube_scenario_path_lengths [of ion_code nav0 0] by (simp add: ion_code_def)


section \<open>GenerateVertex on the cube\<close>

lemma GenerateVertex_loop_Next:
  "\<not> FlagNotInYet st \<or> condition st \<Longrightarrow>
   GenerateVertex_body G p t st = Some (Inr (Next st')) \<Longrightarrow>
   GenerateVertex_loop G p t st = GenerateVertex_loop G p t st'"
  by (subst GenerateVertex_loop.simps) simp

lemma GenerateVertex_loop_Break:
  "\<not> FlagNotInYet st \<or> condition st \<Longrightarrow>
   GenerateVertex_body G p t st = Some (Inr (Break st')) \<Longrightarrow>
   GenerateVertex_loop G p t st = Some (Inr st')"
  by (subst GenerateVertex_loop.simps) simp

lemma cube_vertex_before:
  "GenerateVertex_body (box_world ion (cube m)) ray_momentum t
     \<lparr> geo = \<lparr> nav_point = c, nav_dir = (1, 0, 0) \<rparr>, xx = - 20, yy = 0, zz = 0,
       FlagNotInYet = False, condition = True, dist = l \<rparr> =
   Some (Inr (Next \<lparr> geo = \<lparr> nav_point = (- 20, 0, 0), nav_dir = (1, 0, 0) \<rparr>,
                     xx = - 10, yy = 0, zz = 0,
                     FlagNotInYet = False, condition = False, dist = l \<rparr>))"
  unfolding GenerateVertex_body_def Let_def by (simp add: advance_def)

lemma cube_vertex_within:
  "GenerateVertex_body (box_world ion (cube (isotope a z rho))) ray_momentum t
     \<lparr> geo = \<lparr> nav_point = c, nav_dir = (1, 0, 0) \<rparr>, xx = - 10, yy = 0, zz = 0,
       FlagNotInYet = fl, condition = cd, dist = l \<rparr> =
   Some (Inr (Next \<lparr> geo = \<lparr> nav_point = (- 10, 0, 0), nav_dir = (1, 0, 0) \<rparr>,
                     xx = 10, yy = 0, zz = 0,
                     FlagNotInYet = True, condition = True,
                     dist = (if ion (to_int a) (to_int z) = t then l + 20 * rho else l) \<rparr>))"
  unfolding GenerateVertex_body_def Let_def by (simp add: advance_def)

lemma cube_vertex_after:
  "GenerateVertex_body (box_world ion (cube m)) ray_momentum t
     \<lparr> geo = \<lparr> nav_point = c, nav_dir = (1, 0, 0) \<rparr>, xx = 10, yy = 0, zz = 0,
       FlagNotInYet = True, condition = cd, dist = l \<rparr> =
   Some (Inr (Break \<lparr> geo = \<lparr> nav_point = (10, 0, 0), nav_dir = (1, 0, 0) \<rparr>,
                      xx = 10, yy = 0, zz = 0,
                      FlagNotInYet = True, condition = False, dist = l \<rparr>))"
  unfolding GenerateVertex_body_def Let_def by simp

lemma cube_vertex_loop:
  "GenerateVertex_loop (box_world ion (cube (isotope a z rho))) ray_momentum t
     \<lparr> geo = \<lparr> nav_point = c, nav_dir = (1, 0, 0) \<rparr>, xx = - 20, yy = 0, zz = 0,
       FlagNotInYet = False, condition = True, dist = l \<rparr> =
   Some (Inr \<lparr> geo = \<lparr> nav_point = (10, 0, 0), nav_dir = (1, 0, 0) \<rparr>,
               xx = 10, yy = 0, zz = 0,
               FlagNotInYet = True, condition = False,
               dist = (if ion (to_int a) (to_int z) = t then l + 20 * rho else l) \<rparr>)"
  apply (subst GenerateVertex_loop_Next [OF _ cube_vertex_before], simp)
  apply (subst GenerateVertex_loop_Next [OF _ cube_vertex_within], simp)
  apply (subst GenerateVertex_loop_Break [OF _ cube_vertex_after], simp)
  apply simp
  done

lemma cube_GenerateVertex_zero:
  assumes "ion (to_int a) (to_int z) \<noteq> t \<or> rho = 0"
  shows "GenerateVertex (box_world ion (cube (isotope a z rho))) rnd
           \<lparr> fGeometry = Some g, fCurrPathLengthList = l, fCurrPDGCodeList = codes,
             fMaterial = m0, fCurrVertex = v \<rparr> n ray_origin ray_momentum t =
         Some (Inr (\<lparr> fGeometry = Some \<lparr> nav_point = (10, 0, 0), nav_dir = (1, 0, 0) \<rparr>,
                      fCurrPathLengthList = l, fCurrPDGCodeList = codes,
                      fMaterial = m0, fCurrVertex = (0, 0, 0) \<rparr>, n, (0, 0, 0)))"
proof -
  obtain c d where g: "g = \<lparr> nav_point = c, nav_dir = d \<rparr>"
    by (cases g) simp
  from assms show ?thesis
    unfolding GenerateVertex_def by (auto simp add: g cube_vertex_loop)
qed

section \<open>ComputeMaxPathLength on the cube\<close>

lemma ComputeMaxPathLength_loop_Next:
  "\<not> FlagNotInYet st \<or> condition st \<Longrightarrow> n < 100 \<Longrightarrow>
   ComputeMaxPathLength_body G d pdgc st = Some (Next st') \<Longrightarrow>
   ComputeMaxPathLength_loop G d pdgc n st = ComputeMaxPathLength_loop G d pdgc (Suc n) st'"
  by (subst ComputeMaxPathLength_loop.simps) simp

lemma ComputeMaxPathLength_loop_Break:
  "\<not> FlagNotInYet st \<or> condition st \<Longrightarrow> n < 100 \<Longrightarrow>
   ComputeMaxPathLength_body G d pdgc st = Some (Break st') \<Longrightarrow>
   ComputeMaxPathLength_loop G d pdgc n st = Some (Suc n, st')"
  by (subst ComputeMaxPathLength_loop.simps) simp

lemma material_of_cube [simp]: "material_of (cube m) = Some m"
  by (simp add: material_of_def)

lemma cube_max_within:
  "ComputeMaxPathLength_body (box_world ion (cube (isotope a z rho))) (1, 0, 0) pdgc
     \<lparr> geo = \<lparr> nav_point = c, nav_dir = (1, 0, 0) \<rparr>, xx = - 10, yy = 0, zz = 0,
       FlagNotInYet = fl, condition = cd, Length = l \<rparr> =
   Some (Next \<lparr> geo = \<lparr> nav_point = (- 10, 0, 0), nav_dir = (1, 0, 0) \<rparr>,
                xx = 10, yy = 0, zz = 0,
                FlagNotInYet = True, condition = True,
                Length = (if ion (to_int a) (to_int z) = pdgc then l + 20 else l) \<rparr>)"
  unfolding ComputeMaxPathLength_body_def ComputeMaxPathLength_outside_def Let_def by simp

lemma cube_max_after:
  "ComputeMaxPathLength_body (box_world ion (cube m)) (1, 0, 0) pdgc
     \<lparr> geo = \<lparr> nav_point = c, nav_dir = (1, 0, 0) \<rparr>, xx = 10, yy = 0, zz = 0,
       FlagNotInYet = True, condition = cd, Length = l \<rparr> =
   Some (Break \<lparr> geo = \<lparr> nav_point = (10, 0, 0), nav_dir = (1, 0, 0) \<rparr>,
                 xx = 10, yy = 0, zz = 0,
                 FlagNotInYet = True, condition = False, Length = l \<rparr>)"
  unfolding ComputeMaxPathLength_body_def ComputeMaxPathLength_outside_def Let_def by simp

lemma cube_max_loop:
  "ComputeMaxPathLength_loop (box_world ion (cube (isotope a z rho))) (1, 0, 0) pdgc 0
     \<lparr> geo = \<lparr> nav_point = c, nav_dir = (1, 0, 0) \<rparr>, xx = - 10, yy = 0, zz = 0,
       FlagNotInYet = False, condition = True, Length = 0 \<rparr> =
   Some (2, \<lparr> geo = \<lparr> nav_point = (10, 0, 0), nav_dir = (1, 0, 0) \<rparr>,
              xx = 10, yy = 0, zz = 0, FlagNotInYet = True, condition = False,
              Length = (if ion (to_int a) (to_int z) = pdgc then 0 + 20 else 0) \<rparr>)"
  apply (subst ComputeMaxPathLength_loop_Next [OF _ _ cube_max_within], simp, simp)
  apply (subst ComputeMaxPathLength_loop_Break [OF _ _ cube_max_after], simp, simp)
  apply (simp add: eval_nat_numeral)
  done

text \<open>A probe from the point (-10, 0, 0) of the left face, straight across the cube.\<close>

lemma cube_ComputeMaxPathLength:
  "ComputeMaxPathLength (box_world ion (cube (isotope a z rho))) g (- 10, 0, 0) (1, 0, 0) pdgc =
   Some (\<lparr> nav_point = (10, 0, 0), nav_dir = (1, 0, 0) \<rparr>,
         if ion (to_int a) (to_int z) = pdgc then 20 else 0)"
proof -
  obtain c d where g: "g = \<lparr> nav_point = c, nav_dir = d \<rparr>"
    by (cases g) simp
  show ?thesis
    unfolding ComputeMaxPathLength_def by (simp add: g cube_max_loop)
qed

section \<open>The densities are not read by the estimator\<close>

lemma with_densities_sel [simp]:
  "SetCurrentDirection (with_densities f G) = SetCurrentDirection G"
  "SetCurrentPoint (with_densities f G) = SetCurrentPoint G"
  "FindNode (with_densities f G) = FindNode G"
  "GetCurrentVolume (with_densities f G) g = map_option (with_density f) (GetCurrentVolume G g)"
  "IsOutside (with_densities f G) = IsOutside G"
  "FindNextBoundary (with_densities f G) = FindNextBoundary G"
  "GetStep (with_densities f G) = GetStep G"
  "IsEntering (with_densities f G) = IsEntering G"
  "Step (with_densities f G) = Step G"
  "GetListOfVolumes (with_densities f G) = GetListOfVolumes G"
  "IonPdgCode (with_densities f G) = IonPdgCode G"
  by (simp_all add: with_densities_def)

text \<open>
  The stepping loop only looks at \<open>IsEntering\<close> and \<open>Step\<close>: fixed-point induction on
  the run of one geometry gives the same result for another that agrees on both.
\<close>

lemma StepUntilEntering_agree_Some:
  assumes e: "IsEntering G' = IsEntering G" "Step G' = Step G"
    and r: "StepUntilEntering G g = Some y"
  shows "StepUntilEntering G' g = Some y"
proof -
  have "H = G \<longrightarrow> StepUntilEntering G' g = Some y" if "StepUntilEntering H g = Some y" for H
  proof (rule StepUntilEntering.raw_induct
           [where P = "\<lambda>H g y. H = G \<longrightarrow> StepUntilEntering G' g = Some y", OF _ that], goal_cases)
    case (1 rec H g y)
    show ?case
    proof
      assume H: "H = G"
      show "StepUntilEntering G' g = Some y"
      proof (cases "IsEntering G g")
        case True
        with 1(2) H e show ?thesis by (subst StepUntilEntering.simps) simp
      next
        case False
        with 1(2) H have "rec G (Step G g) = Some y" by simp
        with 1(1) have "StepUntilEntering G' (Step G g) = Some y" by blast
        with False e show ?thesis by (subst StepUntilEntering.simps) simp
      qed
    qed
  qed
  with r show ?thesis by blast
qed

lemma StepUntilEntering_agree:
  assumes e: "IsEntering G' = IsEntering G" "Step G' = Step G"
  shows "StepUntilEntering G' g = StepUntilEntering G g"
proof (cases "StepUntilEntering G g")
  case (Some y)
  from StepUntilEntering_agree_Some [OF e Some] Some show ?thesis by simp
next
  case None
  show ?thesis
  proof (cases "StepUntilEntering G' g")
    case (Some y)
    from StepUntilEntering_agree_Some [OF e [symmetric] Some] None show ?thesis by simp
  qed (simp add: None)
qed

lemma NextBoundary_with_densities [simp]:
  "NextBoundary (with_densities f G) g = NextBoundary G g"
  unfolding NextBoundary_def by (simp, rule StepUntilEntering_agree) simp_all

lemma material_of_with_density:
  "material_of (with_density f TV) =
   map_option (\<lambda>mat. mat\<lparr> GetDensity := f (GetDensity mat) \<rparr>) (material_of TV)"
  by (cases "GetMedium TV") (simp_all add: with_density_def material_of_def)

lemma ComputeMaxPathLength_outside_with_densities:
  "ComputeMaxPathLength_outside (with_densities f G) d g st = ComputeMaxPathLength_outside G d g st"
  unfolding ComputeMaxPathLength_outside_def by (simp cong: option.case_cong)

lemma ComputeMaxPathLength_body_with_densities:
  "ComputeMaxPathLength_body (with_densities f G) d pdgc st = ComputeMaxPathLength_body G d pdgc st"
proof (cases "GetCurrentVolume G (FindNode G (xx st, yy st, zz st)
                (SetCurrentPoint G (xx st, yy st, zz st) (geo st)))")
  case None
  then show ?thesis
    unfolding ComputeMaxPathLength_body_def Let_def
    by (simp add: ComputeMaxPathLength_outside_with_densities)
next
  case (Some TV)
  then show ?thesis
    unfolding ComputeMaxPathLength_body_def Let_def
    by (cases "material_of TV")
       (simp_all add: ComputeMaxPathLength_outside_with_densities material_of_with_density
          cong: option.case_cong if_cong)
qed

lemma ComputeMaxPathLength_loop_with_densities:
  "ComputeMaxPathLength_loop (with_densities f G) d pdgc n st = ComputeMaxPathLength_loop G d pdgc n st"
proof (induction G d pdgc n st rule: ComputeMaxPathLength_loop.induct)
  case (1 G direction pdgc counterloop st)
  note unfold = ComputeMaxPathLength_loop.simps [of G direction pdgc counterloop st]
    ComputeMaxPathLength_loop.simps [of "with_densities f G" direction pdgc counterloop st]
  show ?case
    using 1
    by (auto simp add: unfold ComputeMaxPathLength_body_with_densities
          split: option.splits flow.splits)
qed

lemma ComputeMaxPathLength_with_densities:
  "ComputeMaxPathLength (with_densities f G) g XYZ d pdgc = ComputeMaxPathLength G g XYZ d pdgc"
  by (simp add: ComputeMaxPathLength_def ComputeMaxPathLength_loop_with_densities)

lemma rays_loop_with_densities:
  "rays_loop (with_densities f G) rnd fc xyz pdgc Rgen s = rays_loop G rnd fc xyz pdgc Rgen s"
proof (induction G rnd fc xyz pdgc Rgen s rule: rays_loop.induct)
  case (1 G rnd fc xyz pdgc Rgen s)
  note unfold = rays_loop.simps [of G rnd fc xyz pdgc Rgen s]
    rays_loop.simps [of "with_densities f G" rnd fc xyz pdgc Rgen s]
  show ?case
    using 1
    by (auto simp add: unfold ComputeMaxPathLength_with_densities Let_def
          split: option.splits prod.splits)
qed

lemma points_loop_with_densities:
  "points_loop (with_densities f G) rnd fc box pdgc igen s = points_loop G rnd fc box pdgc igen s"
proof (induction G rnd fc box pdgc igen s rule: points_loop.induct)
  case (1 G rnd fc box pdgc igen s)
  note unfold = points_loop.simps [of G rnd fc box pdgc igen s]
    points_loop.simps [of "with_densities f G" rnd fc box pdgc igen s]
  show ?case
    using 1 by (auto simp add: unfold rays_loop_with_densities split: option.splits sum.splits)
qed

lemma faces_loop_with_densities:
  "faces_loop (with_densities f G) rnd box pdgc fs s = faces_loop G rnd box pdgc fs s"
  by (induction fs arbitrary: s)
     (simp_all add: points_loop_with_densities split: option.splits sum.splits)

lemma SetVtxMaterial_with_densities:
  "SetVtxMaterial (with_densities f G) rnd a n pdgc = SetVtxMaterial G rnd a n pdgc"
  unfolding SetVtxMaterial_def faces_loop_with_densities with_densities_sel(10) by (rule refl)

lemma ComputeMaxPathLength_body_matching:
  assumes "GetCurrentVolume G (FindNode G (xx st, yy st, zz st)
             (SetCurrentPoint G (xx st, yy st, zz st) (geo st))) = Some current"
    and "\<not> IsOutside G (FindNode G (xx st, yy st, zz st)
             (SetCurrentPoint G (xx st, yy st, zz st) (geo st)))"
    and "material_of current = Some mat"
    and "IonPdgCode G (to_int (GetA mat)) (to_int (GetZ mat)) = pdgc"
    and "ComputeMaxPathLength_body G direction pdgc st = Some (Next st')"
  shows "Length st' = Length st + GetStep G (geo st')"
  using assms unfolding ComputeMaxPathLength_body_def Let_def
  by (cases direction) (auto split: option.splits)

section \<open>The estimate and the density\<close>




section \<open>The vertex sampler's miss\<close>

text \<open>
  Claim C5, as stated: the sampler's result tells "the ray never enters the target
  isotope" from "the target isotope is met with zero weighted length". It fails: on the
  cube of the isotope (16, 8) with density 0 the ray crosses 20 units of that isotope, and
  \<open>GenerateVertex\<close> for it returns exactly what it returns for the isotope (1, 1), which
  the ray never meets: the zero vertex, the same analyzer, no random draw.
\<close>

theorem GenerateVertex_miss_counterexample:
  "ComputePathLengths (box_world ion_code (cube (isotope 16 8 0))) AddPathLength_calls
     \<lparr> fGeometry = Some nav0, fCurrPathLengthList = [], fCurrPDGCodeList = [ion_code 16 8],
       fMaterial = 0, fCurrVertex = (0, 0, 0) \<rparr> ray_origin ray_momentum =
   Some (Inr (\<lparr> fGeometry = Some \<lparr> nav_point = (10, 0, 0), nav_dir = (1, 0, 0) \<rparr>,
                fCurrPathLengthList = [(ion_code 16 8, 20)], fCurrPDGCodeList = [ion_code 16 8],
                fMaterial = 0, fCurrVertex = (0, 0, 0) \<rparr>, [(ion_code 16 8, 20)])) \<and>
   GenerateVertex (box_world ion_code (cube (isotope 16 8 0))) half_rnd cube_analyzer 0
     ray_origin ray_momentum (ion_code 16 8) =
   Some (Inr (cube_analyzer\<lparr> fGeometry := Some \<lparr> nav_point = (10, 0, 0), nav_dir = (1, 0, 0) \<rparr> \<rparr>,
              0, (0, 0, 0))) \<and>
   GenerateVertex (box_world ion_code (cube (isotope 16 8 0))) half_rnd cube_analyzer 0
     ray_origin ray_momentum (ion_code 1 1) =
   Some (Inr (cube_analyzer\<lparr> fGeometry := Some \<lparr> nav_point = (10, 0, 0), nav_dir = (1, 0, 0) \<rparr> \<rparr>,
              0, (0, 0, 0)))"
  by (simp add: cube_ComputePathLengths cube_GenerateVertex_zero cube_analyzer_def
        AddPathLength_calls_def)

text \<open>
  Claim C5, amended: whenever the first traversal ends with a weighted length of zero,
  whether the target isotope was never met or was met with zero weighted length,
  \<open>GenerateVertex\<close> returns the zero vertex, stores it in the analyzer and draws no random
  number; the result does not tell the two cases apart.
\<close>

theorem GenerateVertex_zero_weighted_length:
  assumes "fGeometry a = Some g" and "P p \<noteq> 0"
    and "GenerateVertex_loop G p tgtpdg
           \<lparr> geo = SetCurrentDirection G (Px p / P p, Py p / P p, Pz p / P p) g,
             xx = fX x, yy = fY x, zz = fZ x,
             FlagNotInYet = False, condition = True, dist = 0 \<rparr> = Some (Inr st1)"
    and "dist st1 = 0"
  shows "GenerateVertex G rnd a n x p tgtpdg =
         Some (Inr (a\<lparr> fGeometry := Some (geo st1), fCurrVertex := (0, 0, 0) \<rparr>, n, (0, 0, 0)))"
  using assms by (simp add: GenerateVertex_def)

theorem GenerateVertex_zero_weighted_length_witness:
  "GenerateVertex (box_world ion_code (cube (isotope 16 8 1))) half_rnd cube_analyzer 5
     ray_origin ray_momentum (ion_code 1 1) =
   Some (Inr (cube_analyzer\<lparr> fGeometry := Some \<lparr> nav_point = (10, 0, 0), nav_dir = (1, 0, 0) \<rparr>,
                             fCurrVertex := (0, 0, 0) \<rparr>, 5, (0, 0, 0)))"
proof -
  have g: "fGeometry cube_analyzer = Some nav0"
    by (simp add: cube_analyzer_def)
  have p: "P ray_momentum \<noteq> 0"
    by simp
  have l: "GenerateVertex_loop (box_world ion_code (cube (isotope 16 8 1))) ray_momentum (ion_code 1 1)
             \<lparr> geo = SetCurrentDirection (box_world ion_code (cube (isotope 16 8 1)))
                       (Px ray_momentum / P ray_momentum, Py ray_momentum / P ray_momentum,
                        Pz ray_momentum / P ray_momentum) nav0,
               xx = fX ray_origin, yy = fY ray_origin, zz = fZ ray_origin,
               FlagNotInYet = False, condition = True, dist = 0 \<rparr> =
           Some (Inr \<lparr> geo = \<lparr> nav_point = (10, 0, 0), nav_dir = (1, 0, 0) \<rparr>,
                       xx = 10, yy = 0, zz = 0, FlagNotInYet = True, condition = False,
                       dist = 0 \<rparr>)"
    by (simp add: nav0_def cube_vertex_loop ion_code_def)
  from GenerateVertex_zero_weighted_length [OF g p l, of half_rnd 5] show ?thesis
    by simp
qed

section \<open>The division by the magnitude of the momentum\<close>

text \<open>
  Claim C9, as stated: a zero momentum is detected before the normalisation and the
  division by zero is never performed. It fails: with the zero momentum both
  \<open>ComputePathLengths\<close> and \<open>GenerateVertex\<close> execute the division by \<open>p.P() = 0\<close>.
\<close>

theorem zero_momentum_counterexample:
  "ComputePathLengths (box_world ion_code (cube (isotope 16 8 1))) PathLengthList cube_analyzer
     ray_origin zero_momentum = Some (Inl DivisionByZero) \<and>
   GenerateVertex (box_world ion_code (cube (isotope 16 8 1))) half_rnd cube_analyzer 0
     ray_origin zero_momentum (ion_code 16 8) = Some (Inl DivisionByZero)"
  by (simp add: ComputePathLengths_def GenerateVertex_def cube_analyzer_def)

text \<open>
  Claim C9, amended: neither function tests the magnitude of the momentum. Whenever it
  is zero, \<open>ComputePathLengths\<close> executes the division by zero, and so does
  \<open>GenerateVertex\<close> once it has found the geometry loaded; no input error is reported.
\<close>

theorem normalisation_is_unguarded:
  assumes "P p = 0"
  shows "ComputePathLengths G L a x p = Some (Inl DivisionByZero) \<and>
         (fGeometry a \<noteq> None \<longrightarrow>
            GenerateVertex G rnd a n x p tgtpdg = Some (Inl DivisionByZero))"
  using assms by (auto simp add: ComputePathLengths_def GenerateVertex_def)

theorem normalisation_is_unguarded_witness:
  "ComputePathLengths (box_world ion_code (cube (isotope 16 8 1))) PathLengthList cube_analyzer
     zero_momentum zero_momentum = Some (Inl DivisionByZero) \<and>
   GenerateVertex (box_world ion_code (cube (isotope 16 8 1))) half_rnd cube_analyzer
     3 zero_momentum zero_momentum (ion_code 1 1) = Some (Inl DivisionByZero)"
  using normalisation_is_unguarded
    [of zero_momentum "box_world ion_code (cube (isotope 16 8 1))" PathLengthList
        cube_analyzer zero_momentum half_rnd 3 "ion_code 1 1"]
  by (simp add: cube_analyzer_def)

section \<open>SetVtxMaterial runs the trials of the spec\<close>

lemma run_trials_append:
  "run_trials G pdgc (ts @ us) g m =
     (case run_trials G pdgc ts g m of None \<Rightarrow> None | Some (g', m') \<Rightarrow> run_trials G pdgc us g' m')"
proof (induction ts arbitrary: g m)
  case (Cons t ts)
  obtain xyz d where t: "t = (xyz, d)" by (cases t)
  show ?case
    by (cases "ComputeMaxPathLength G g xyz d pdgc") (simp_all add: t Cons.IH split: prod.splits)
qed simp

lemma dirTot_face_direction:
  assumes "r1 \<noteq> 0" "r2 \<noteq> 0" "r3 \<noteq> 0"
  shows "dirTot (face_direction f r1 r2 r3) \<noteq> 0"
proof -
  have *: "u * u + v * v + w * w = 0 \<longleftrightarrow> u = 0 \<and> v = 0 \<and> w = 0" for u v w :: real
    by (metis add_nonneg_eq_0_iff mult_eq_0_iff zero_le_square add_nonneg_nonneg)
  show ?thesis using assms by (cases f) (simp_all add: *)
qed

lemma rays_loop_run:
  assumes nz: "\<forall>k. rnd k \<noteq> 0"
  shows "Rgen + k = 200 \<Longrightarrow> drawn s = b + 3 * Rgen \<Longrightarrow>
    rays_loop G rnd f xyz pdgc Rgen s =
      (case run_trials G pdgc
              (map (\<lambda>j. (xyz, normalised (face_direction f (rnd (b + 3 * j)) (rnd (b + 3 * j + 1)) (rnd (b + 3 * j + 2)))))
                 [Rgen..<200]) (manager s) (MaxPath s) of
         None \<Rightarrow> None
       | Some (g', m) \<Rightarrow> Some (Inr \<lparr> manager = g', drawn = b + 600, MaxPath = m \<rparr>))"
proof (induction k arbitrary: Rgen s)
  case 0
  then show ?case
    by (subst rays_loop.simps) (simp add: maxRays_def)
next
  case (Suc k)
  then have lt: "Rgen < 200" by simp
  have nzd: "dirTot (face_direction f (rnd (drawn s)) (rnd (drawn s + 1)) (rnd (drawn s + 2))) \<noteq> 0"
    using nz by (simp add: dirTot_face_direction)
  show ?case
  proof (cases "ComputeMaxPathLength G (manager s) xyz
      (normalised (face_direction f (rnd (drawn s)) (rnd (drawn s + 1)) (rnd (drawn s + 2)))) pdgc")
    case None
    with lt nzd Suc.prems show ?thesis
      by (subst rays_loop.simps) (simp add: maxRays_def upt_conv_Cons Let_def)
  next
    case (Some r)
    obtain g' l where r: "r = (g', l)" by (cases r)
    have "rays_loop G rnd f xyz pdgc (Suc Rgen) \<lparr> manager = g', drawn = drawn s + 3,
                       MaxPath = (if l > MaxPath s then l else MaxPath s) \<rparr> = 
      (case run_trials G pdgc
              (map (\<lambda>j. (xyz, normalised (face_direction f (rnd (b + 3 * j)) (rnd (b + 3 * j + 1)) (rnd (b + 3 * j + 2)))))
                 [Suc Rgen..<200]) g' (if l > MaxPath s then l else MaxPath s) of
         None \<Rightarrow> None
       | Some (g', m) \<Rightarrow> Some (Inr \<lparr> manager = g', drawn = b + 600, MaxPath = m \<rparr>))"
      using Suc.IH [of "Suc Rgen" "\<lparr> manager = g', drawn = drawn s + 3,
                       MaxPath = (if l > MaxPath s then l else MaxPath s) \<rparr>"] Suc.prems by simp
    with lt nzd Suc.prems Some r show ?thesis
      by (subst rays_loop.simps) (simp add: maxRays_def upt_conv_Cons Let_def)
  qed
qed

lemma rays_loop_trials:
  assumes nz: "\<forall>k. rnd k \<noteq> 0" and d: "drawn s = n0 + 602 * i"
  shows "rays_loop G rnd f (trial_point rnd box f n0 i) pdgc 0 (s\<lparr> drawn := drawn s + 2 \<rparr>) =
      (case run_trials G pdgc
              (map (\<lambda>j. (trial_point rnd box f n0 i, normalised (trial_draw rnd f n0 i j))) [0..<200])
              (manager s) (MaxPath s) of
         None \<Rightarrow> None
       | Some (g', m) \<Rightarrow> Some (Inr \<lparr> manager = g', drawn = n0 + 602 * Suc i, MaxPath = m \<rparr>))"
  using rays_loop_run [OF nz, of 0 200 "s\<lparr> drawn := drawn s + 2 \<rparr>" "n0 + 602 * i + 2" G f
          "trial_point rnd box f n0 i" pdgc] d
  by (simp add: trial_draw_def ac_simps cong: option.case_cong)

lemma points_loop_run:
  assumes nz: "\<forall>k. rnd k \<noteq> 0"
  shows "igen + k = 200 \<Longrightarrow> drawn s = n0 + 602 * igen \<Longrightarrow>
    points_loop G rnd f box pdgc igen s =
      (case run_trials G pdgc
              (concat (map (\<lambda>i. map (\<lambda>j. (trial_point rnd box f n0 i, normalised (trial_draw rnd f n0 i j)))
                          [0..<200]) [igen..<200])) (manager s) (MaxPath s) of
         None \<Rightarrow> None
       | Some (g', m) \<Rightarrow> Some (Inr \<lparr> manager = g', drawn = n0 + 120400, MaxPath = m \<rparr>))"
proof (induction k arbitrary: igen s)
  case 0
  then show ?case
    by (subst points_loop.simps) (simp add: maxPoints_def)
next
  case (Suc k)
  then have lt: "igen < 200" by simp
  let ?row = "map (\<lambda>j. (trial_point rnd box f n0 igen, normalised (trial_draw rnd f n0 igen j))) [0..<200]"
  have pt: "face_point f box (rnd (drawn s)) (rnd (Suc (drawn s))) = trial_point rnd box f n0 igen"
    using Suc.prems by (simp add: trial_point_def)
  have rays: "rays_loop G rnd f (trial_point rnd box f n0 igen) pdgc 0
                (s\<lparr> drawn := Suc (Suc (drawn s)) \<rparr>) =
      (case run_trials G pdgc ?row (manager s) (MaxPath s) of
         None \<Rightarrow> None
       | Some (g', m) \<Rightarrow> Some (Inr \<lparr> manager = g', drawn = n0 + 602 * Suc igen, MaxPath = m \<rparr>))"
    using rays_loop_trials [OF nz Suc.prems(2), of G f box pdgc] by simp
  show ?case
  proof (cases "run_trials G pdgc ?row (manager s) (MaxPath s)")
    case None
    with lt show ?thesis
      by (subst points_loop.simps)
         (simp add: maxPoints_def upt_conv_Cons [of igen 200] pt rays run_trials_append
            del: face_point.simps)
  next
    case (Some r)
    obtain g' m where r: "r = (g', m)" by (cases r)
    have "points_loop G rnd f box pdgc (Suc igen) \<lparr> manager = g', drawn = n0 + 602 * Suc igen, MaxPath = m \<rparr> =
      (case run_trials G pdgc
              (concat (map (\<lambda>i. map (\<lambda>j. (trial_point rnd box f n0 i, normalised (trial_draw rnd f n0 i j)))
                          [0..<200]) [Suc igen..<200])) g' m of
         None \<Rightarrow> None
       | Some (g', m) \<Rightarrow> Some (Inr \<lparr> manager = g', drawn = n0 + 120400, MaxPath = m \<rparr>))"
      using Suc.IH [of "Suc igen" "\<lparr> manager = g', drawn = n0 + 602 * Suc igen, MaxPath = m \<rparr>"] Suc.prems
      by simp
    with lt Some r show ?thesis
      by (subst points_loop.simps)
         (simp add: maxPoints_def upt_conv_Cons [of igen 200] pt rays run_trials_append
            del: face_point.simps)
  qed
qed

lemma points_loop_face_trials:
  assumes nz: "\<forall>k. rnd k \<noteq> 0" and d: "drawn s = n0"
  shows "points_loop G rnd f box pdgc 0 s =
      (case run_trials G pdgc (face_trials rnd box f n0) (manager s) (MaxPath s) of
         None \<Rightarrow> None
       | Some (g', m) \<Rightarrow> Some (Inr \<lparr> manager = g', drawn = n0 + 120400, MaxPath = m \<rparr>))"
  using points_loop_run [OF nz, of 0 200 s n0 G f box pdgc] d by (simp add: face_trials_def)

lemma faces_loop_run:
  assumes nz: "\<forall>k. rnd k \<noteq> 0"
  shows "faces_loop G rnd box pdgc fs s =
      (case run_trials G pdgc (faces_trials rnd box fs (drawn s)) (manager s) (MaxPath s) of
         None \<Rightarrow> None
       | Some (g', m) \<Rightarrow>
           Some (Inr \<lparr> manager = g', drawn = drawn s + 120400 * length fs, MaxPath = m \<rparr>))"
proof (induction fs arbitrary: s)
  case Nil
  show ?case by simp
next
  case (Cons f fs)
  note pts = points_loop_face_trials [OF nz refl, of G f box pdgc s]
  show ?case
  proof (cases "run_trials G pdgc (face_trials rnd box f (drawn s)) (manager s) (MaxPath s)")
    case None
    then show ?thesis by (simp add: pts run_trials_append)
  next
    case (Some r)
    obtain g' m where r: "r = (g', m)" by (cases r)
    from Some r show ?thesis
      by (simp add: pts run_trials_append Cons.IH add.assoc cong: option.case_cong)
  qed
qed

lemma faces_loop_all_trials:
  assumes nz: "\<forall>k. rnd k \<noteq> 0"
  shows "faces_loop G rnd box pdgc [TopFace, BottomFace, LeftFace, RightFace, BackFace, FrontFace]
           \<lparr> manager = g, drawn = n, MaxPath = 0 \<rparr> =
      (case run_trials G pdgc (all_trials rnd box n) g 0 of
         None \<Rightarrow> None
       | Some (g', m) \<Rightarrow> Some (Inr \<lparr> manager = g', drawn = n + 722400, MaxPath = m \<rparr>))"
proof -
  have "faces_trials rnd box [TopFace, BottomFace, LeftFace, RightFace, BackFace, FrontFace] n =
        all_trials rnd box n"
    by (simp add: all_trials_def ac_simps)
  then show ?thesis
    using faces_loop_run [OF nz, of G box pdgc
        "[TopFace, BottomFace, LeftFace, RightFace, BackFace, FrontFace]"
        "\<lparr> manager = g, drawn = n, MaxPath = 0 \<rparr>"]
    by (simp del: faces_trials.simps faces_loop.simps cong: option.case_cong)
qed

lemma length_all_trials: "length (all_trials rnd box n) = 6 * 200 * 200"
  by (simp add: all_trials_def face_trials_def length_concat sum_list_triv o_def)

lemma within_span:
  fixes r d :: real
  assumes "0 < r" "r < 1"
  shows "\<bar>- d + 2 * d * r\<bar> \<le> \<bar>d\<bar>"
proof -
  have "- d + 2 * d * r = d * (2 * r - 1)" by (simp add: algebra_simps)
  moreover have "\<bar>2 * r - 1\<bar> \<le> 1" using assms by simp
  ultimately show ?thesis
    by (simp add: abs_mult mult_left_le)
qed

lemma on_face_face_point:
  assumes "0 < r1" "r1 < 1" "0 < r2" "r2 < 1"
  shows "on_face f box (face_point f box r1 r2)"
proof -
  obtain ox oy oz where orig: "GetOrigin box = (ox, oy, oz)"
    by (cases "GetOrigin box")
  have *: "\<bar>2 * d * r - d\<bar> \<le> \<bar>d\<bar>" if "0 < r" "r < 1" for d r :: real
    using within_span [OF that, of d] by (simp add: algebra_simps)
  show ?thesis
    using assms by (cases f) (simp_all add: on_face_def orig Let_def *)
qed

lemma inward_face_direction:
  assumes "0 < r1" "0 < r2" "0 < r3"
  shows "inward f (normalised (face_direction f r1 r2 r3))"
proof -
  have pos: "0 < dirTot (face_direction f r1 r2 r3)"
    using dirTot_face_direction [of r1 r2 r3 f] assms
    by (cases "face_direction f r1 r2 r3") (simp add: less_le)
  obtain u v w where d: "face_direction f r1 r2 r3 = (u, v, w)"
    by (cases "face_direction f r1 r2 r3")
  from pos d have p: "0 < sqrt (u * u + v * v + w * w)" by simp
  show ?thesis
    using assms d p
    by (cases f) (auto simp add: inward_def divide_neg_pos)
qed

lemma face_trials_inward:
  assumes rnd: "\<forall>k. 0 < rnd k \<and> rnd k < 1"
    and t: "(xyz, d) \<in> set (face_trials rnd box f n0)"
  shows "on_face f box xyz \<and> inward f d"
proof -
  from t obtain i j where "xyz = trial_point rnd box f n0 i"
      "d = normalised (trial_draw rnd f n0 i j)"
    by (auto simp add: face_trials_def)
  with rnd show ?thesis
    by (simp add: trial_point_def trial_draw_def on_face_face_point inward_face_direction
          del: face_point.simps normalised.simps)
qed

lemma ComputeMaxPathLength_loop_cap:
  "ComputeMaxPathLength_loop G d pdgc n st = Some (c, st') \<Longrightarrow> n \<le> 100 \<Longrightarrow> c \<le> 100"
proof (induction G d pdgc n st rule: ComputeMaxPathLength_loop.induct)
  case (1 G direction pdgc counterloop st)
  note unfold = ComputeMaxPathLength_loop.simps [of G direction pdgc counterloop st]
  show ?case
    using 1 by (auto simp add: unfold split: if_splits option.splits flow.splits)
qed

lemma SetVtxMaterial_run_trials:
  assumes rnd: "\<forall>k. 0 < rnd k \<and> rnd k < 1"
    and loaded: "fGeometry a = Some g"
    and reg: "ExistsInPDGCodeList (fCurrPDGCodeList a) pdgc"
    and world: "find (\<lambda>TV. GetName TV = ''World'') (GetListOfVolumes G g) = Some TVWorld"
  shows "SetVtxMaterial G rnd a n pdgc =
     (case run_trials G pdgc (all_trials rnd (GetShape TVWorld) n) g 0 of
        None \<Rightarrow> None
      | Some (g', m) \<Rightarrow>
          Some (Inr (a\<lparr> fGeometry := Some g', fMaterial := pdgc \<rparr>, n + 722400, m)))"
proof -
  from rnd have nz: "\<forall>k. rnd k \<noteq> 0"
    by (metis less_irrefl)
  show ?thesis
    unfolding SetVtxMaterial_def
    by (simp add: loaded reg world faces_loop_all_trials [OF nz]
          split: option.splits prod.splits del: faces_loop.simps)
qed

lemma advance_along_Length [simp]: "Length (advance_along d s st) = Length st"
  by (cases d) simp

lemma ComputeMaxPathLength_body_never_matching:
  assumes nm: "\<forall>g TV mat. GetCurrentVolume G g = Some TV \<longrightarrow> material_of TV = Some mat \<longrightarrow>
                 IonPdgCode G (to_int (GetA mat)) (to_int (GetZ mat)) \<noteq> pdgc"
    and tot: "\<forall>g. NextBoundary G g \<noteq> None"
    and z: "Length st = 0"
  shows "(\<exists>st'. ComputeMaxPathLength_body G d pdgc st = Some (Break st') \<and> Length st' = 0) \<or>
         (\<exists>st'. ComputeMaxPathLength_body G d pdgc st = Some (Next st') \<and> Length st' = 0)"
proof -
  let ?g = "FindNode G (xx st, yy st, zz st) (SetCurrentPoint G (xx st, yy st, zz st) (geo st))"
  from tot obtain g' where g': "NextBoundary G ?g = Some g'" by auto
  have out: "(\<exists>st'. ComputeMaxPathLength_outside G d ?g st = Some (Break st') \<and> Length st' = 0) \<or>
         (\<exists>st'. ComputeMaxPathLength_outside G d ?g st = Some (Next st') \<and> Length st' = 0)"
    unfolding ComputeMaxPathLength_outside_def using g' z by simp
  show ?thesis
  proof (cases "GetCurrentVolume G ?g")
    case None
    with out show ?thesis
      unfolding ComputeMaxPathLength_body_def Let_def by simp
  next
    case (Some TV)
    show ?thesis
    proof (cases "material_of TV")
      case None
      with Some out z show ?thesis
        unfolding ComputeMaxPathLength_body_def Let_def by simp
    next
      case mat: (Some mat)
      with nm Some have "IonPdgCode G (to_int (GetA mat)) (to_int (GetZ mat)) \<noteq> pdgc"
        by blast
      with Some mat out z g' show ?thesis
        unfolding ComputeMaxPathLength_body_def Let_def by simp
    qed
  qed
qed

lemma ComputeMaxPathLength_loop_never_matching:
  assumes nm: "\<forall>g TV mat. GetCurrentVolume G g = Some TV \<longrightarrow> material_of TV = Some mat \<longrightarrow>
                 IonPdgCode G (to_int (GetA mat)) (to_int (GetZ mat)) \<noteq> pdgc"
    and tot: "\<forall>g. NextBoundary G g \<noteq> None"
  shows "Length st = 0 \<Longrightarrow>
         \<exists>c st'. ComputeMaxPathLength_loop G d pdgc n st = Some (c, st') \<and> Length st' = 0"
  using nm tot
proof (induction G d pdgc n st rule: ComputeMaxPathLength_loop.induct)
  case (1 G direction pdgc counterloop st)
  note unfold = ComputeMaxPathLength_loop.simps [of G direction pdgc counterloop st]
  show ?case
  proof (cases "(\<not> FlagNotInYet st \<or> condition st) \<and> counterloop < 100")
    case False
    with 1(2) show ?thesis by (auto simp add: unfold)
  next
    case True
    from ComputeMaxPathLength_body_never_matching [OF 1(3) 1(4) 1(2), of direction]
    show ?thesis
    proof
      assume "\<exists>st'. ComputeMaxPathLength_body G direction pdgc st = Some (Break st') \<and> Length st' = 0"
      with True show ?thesis by (auto simp add: unfold)
    next
      assume "\<exists>st'. ComputeMaxPathLength_body G direction pdgc st = Some (Next st') \<and> Length st' = 0"
      then obtain st' where b: "ComputeMaxPathLength_body G direction pdgc st = Some (Next st')"
        and z: "Length st' = 0" by blast
      from 1(1) [OF True b refl z 1(3) 1(4)] True b show ?thesis
        by (simp add: unfold)
    qed
  qed
qed

lemma ComputeMaxPathLength_never_matching:
  assumes nm: "\<forall>g TV mat. GetCurrentVolume G g = Some TV \<longrightarrow> material_of TV = Some mat \<longrightarrow>
                 IonPdgCode G (to_int (GetA mat)) (to_int (GetZ mat)) \<noteq> pdgc"
    and tot: "\<forall>g. NextBoundary G g \<noteq> None"
  shows "\<exists>g'. ComputeMaxPathLength G g xyz d pdgc = Some (g', 0)"
proof -
  from ComputeMaxPathLength_loop_never_matching [OF nm tot, of
      "\<lparr> geo = SetCurrentDirection G d g, xx = fst xyz, yy = fst (snd xyz), zz = snd (snd xyz),
         FlagNotInYet = False, condition = True, Length = 0 \<rparr>" d 0]
  show ?thesis
    unfolding ComputeMaxPathLength_def by auto
qed

lemma run_trials_never_matching:
  assumes nm: "\<forall>g TV mat. GetCurrentVolume G g = Some TV \<longrightarrow> material_of TV = Some mat \<longrightarrow>
                 IonPdgCode G (to_int (GetA mat)) (to_int (GetZ mat)) \<noteq> pdgc"
    and tot: "\<forall>g. NextBoundary G g \<noteq> None"
  shows "\<exists>g'. run_trials G pdgc ts g 0 = Some (g', 0)"
proof (induction ts arbitrary: g)
  case (Cons t ts)
  obtain xyz d where t: "t = (xyz, d)" by (cases t)
  from ComputeMaxPathLength_never_matching [OF nm tot, of g xyz d]
  obtain g1 where "ComputeMaxPathLength G g xyz d pdgc = Some (g1, 0)" by blast
  with Cons.IH [of g1] t show ?case by simp
qed simp

lemma half_rnd_range: "\<forall>k. 0 < half_rnd k \<and> half_rnd k < 1"
  by (simp add: half_rnd_def)

lemma find_World_cube [simp]:
  "find (\<lambda>TV. GetName TV = ''World'') (GetListOfVolumes (box_world ion (cube m)) g) = Some (cube m)"
  by simp

lemma to_int_water [simp]: "to_int (GetA water) = 14" "to_int (GetZ water) = 7"
  by (simp_all add: water_def to_int_def)

lemma water_Initialize:
  "Initialize (box_world ion_code (cube water)) PathLengthList (Some nav0) 0 = Inr water_analyzer"
  by (auto simp add: Initialize_def BuildListOfTargetNuclei_def push_back_def water_def
        water_analyzer_def to_int_def fun_eq_iff)

section \<open>The estimator's sampling\<close>



section \<open>The error return of SetVtxMaterial\<close>

text \<open>
  Claim C10. When the geometry is not loaded, or the code is not registered, or no volume
  is named World, \<open>SetVtxMaterial\<close> returns 0 and leaves \<open>fMaterial = -1\<close>; it returns
  (no fault). The value 0 is also a legitimate estimate: when the call passes the three
  tests and no material the navigator reports has the target's code, it returns 0 as well,
  with \<open>fMaterial\<close> set to the code.
\<close>

theorem SetVtxMaterial_error_return:
  "(fGeometry a = None \<or> \<not> ExistsInPDGCodeList (fCurrPDGCodeList a) pdgc \<or>
    (\<exists>g. fGeometry a = Some g \<and> (\<forall>TV \<in> set (GetListOfVolumes G g). GetName TV \<noteq> ''World'')) \<longrightarrow>
    SetVtxMaterial G rnd a n pdgc = Some (Inr (a\<lparr> fMaterial := - 1 \<rparr>, n, 0))) \<and>
   ((\<forall>k. 0 < rnd k \<and> rnd k < 1) \<and> fGeometry a = Some g \<and>
    ExistsInPDGCodeList (fCurrPDGCodeList a) pdgc \<and>
    find (\<lambda>TV. GetName TV = ''World'') (GetListOfVolumes G g) = Some TVWorld \<and>
    (\<forall>g TV mat. GetCurrentVolume G g = Some TV \<longrightarrow> material_of TV = Some mat \<longrightarrow>
                 IonPdgCode G (to_int (GetA mat)) (to_int (GetZ mat)) \<noteq> pdgc) \<and>
    (\<forall>g. NextBoundary G g \<noteq> None) \<longrightarrow>
    (\<exists>g'. SetVtxMaterial G rnd a n pdgc =
            Some (Inr (a\<lparr> fGeometry := Some g', fMaterial := pdgc \<rparr>, n + 722400, 0))))"
proof (intro conjI impI)
  assume "fGeometry a = None \<or> \<not> ExistsInPDGCodeList (fCurrPDGCodeList a) pdgc \<or>
    (\<exists>g. fGeometry a = Some g \<and> (\<forall>TV \<in> set (GetListOfVolumes G g). GetName TV \<noteq> ''World''))"
  then consider "fGeometry a = None"
    | g where "fGeometry a = Some g" "\<not> ExistsInPDGCodeList (fCurrPDGCodeList a) pdgc"
    | g where "fGeometry a = Some g" "ExistsInPDGCodeList (fCurrPDGCodeList a) pdgc"
        "find (\<lambda>TV. GetName TV = ''World'') (GetListOfVolumes G g) = None"
    by (cases "fGeometry a") (auto simp add: find_None_iff)
  then show "SetVtxMaterial G rnd a n pdgc = Some (Inr (a\<lparr> fMaterial := - 1 \<rparr>, n, 0))"
    by cases (simp_all add: SetVtxMaterial_def)
next
  assume h: "(\<forall>k. 0 < rnd k \<and> rnd k < 1) \<and> fGeometry a = Some g \<and>
    ExistsInPDGCodeList (fCurrPDGCodeList a) pdgc \<and>
    find (\<lambda>TV. GetName TV = ''World'') (GetListOfVolumes G g) = Some TVWorld \<and>
    (\<forall>g TV mat. GetCurrentVolume G g = Some TV \<longrightarrow> material_of TV = Some mat \<longrightarrow>
                 IonPdgCode G (to_int (GetA mat)) (to_int (GetZ mat)) \<noteq> pdgc) \<and>
    (\<forall>g. NextBoundary G g \<noteq> None)"
  then have run: "SetVtxMaterial G rnd a n pdgc =
           (case run_trials G pdgc (all_trials rnd (GetShape TVWorld) n) g 0 of
              None \<Rightarrow> None
            | Some (g', m) \<Rightarrow>
                Some (Inr (a\<lparr> fGeometry := Some g', fMaterial := pdgc \<rparr>, n + 722400, m)))"
    by (intro SetVtxMaterial_run_trials) simp_all
  from h obtain g' where "run_trials G pdgc (all_trials rnd (GetShape TVWorld) n) g 0 = Some (g', 0)"
    using run_trials_never_matching [of G pdgc "all_trials rnd (GetShape TVWorld) n" g] by blast
  with run show "\<exists>g'. SetVtxMaterial G rnd a n pdgc =
            Some (Inr (a\<lparr> fGeometry := Some g', fMaterial := pdgc \<rparr>, n + 722400, 0))"
    by (intro exI [of _ g']) simp
qed

theorem SetVtxMaterial_error_return_witness:
  "SetVtxMaterial (box_world ion_code (cube water)) half_rnd water_analyzer 0 (ion_code 16 8) =
     Some (Inr (water_analyzer\<lparr> fMaterial := - 1 \<rparr>, 0, 0)) \<and>
   (\<exists>g'. SetVtxMaterial (box_world ion_code (cube water)) half_rnd water_analyzer 0 (ion_code 1 1) =
      Some (Inr (water_analyzer\<lparr> fGeometry := Some g', fMaterial := ion_code 1 1 \<rparr>, 722400, 0)))"
proof -
  have 1: "\<not> ExistsInPDGCodeList (fCurrPDGCodeList water_analyzer) (ion_code 16 8)"
    by (simp add: water_analyzer_def ExistsInPDGCodeList_def ion_code_def)
  have 2: "(\<forall>k. 0 < half_rnd k \<and> half_rnd k < 1) \<and> fGeometry water_analyzer = Some nav0 \<and>
    ExistsInPDGCodeList (fCurrPDGCodeList water_analyzer) (ion_code 1 1) \<and>
    find (\<lambda>TV. GetName TV = ''World'') (GetListOfVolumes (box_world ion_code (cube water)) nav0) = Some (cube water) \<and>
    (\<forall>g TV mat. GetCurrentVolume (box_world ion_code (cube water)) g = Some TV \<longrightarrow> material_of TV = Some mat \<longrightarrow>
                 IonPdgCode (box_world ion_code (cube water)) (to_int (GetA mat)) (to_int (GetZ mat)) \<noteq> ion_code 1 1) \<and>
    (\<forall>g. NextBoundary (box_world ion_code (cube water)) g \<noteq> None)"
    by (auto simp add: half_rnd_def water_analyzer_def ExistsInPDGCodeList_def ion_code_def)
  from SetVtxMaterial_error_return [of water_analyzer "ion_code 16 8" "box_world ion_code (cube water)" half_rnd 0]
    1
  have a: "SetVtxMaterial (box_world ion_code (cube water)) half_rnd water_analyzer 0 (ion_code 16 8) =
     Some (Inr (water_analyzer\<lparr> fMaterial := - 1 \<rparr>, 0, 0))"
    by blast
  from SetVtxMaterial_error_return [of water_analyzer "ion_code 1 1" "box_world ion_code (cube water)" half_rnd 0 nav0 "cube water"]
    2
  have "\<exists>g'. SetVtxMaterial (box_world ion_code (cube water)) half_rnd water_analyzer 0 (ion_code 1 1) =
      Some (Inr (water_analyzer\<lparr> fGeometry := Some g', fMaterial := ion_code 1 1 \<rparr>, 0 + 722400, 0))"
    by blast
  with a show ?thesis by simp
qed

section \<open>The element loop of a mixture\<close>

lemma AddPathLength_calls_sel [simp]:
  "NewPathLengthList AddPathLength_calls pdglist = []"
  "SetAllToZero AddPathLength_calls calls = []"
  "AddPathLength AddPathLength_calls pdgc pl calls = calls @ [(pdgc, pl)]"
  by (simp_all add: AddPathLength_calls_def)

lemma mixture_elements_stable:
  assumes "NextBoundary G g' = Some g'"
  shows "geo st = g' \<Longrightarrow>
    \<exists>st'. mixture_elements G AddPathLength_calls p els st = Some st' \<and> geo st' = g' \<and>
      FlagNotInYet st' = FlagNotInYet st \<and> condition st' = condition st \<and>
      lengths st' = lengths st @ map (\<lambda>ele. (element_code G ele, GetStep G g')) els"
proof (induction els arbitrary: st)
  case Nil
  then show ?case by simp
next
  case (Cons ele els)
  let ?st1 = "advance p (GetStep G g')
               (st\<lparr> geo := g',
                    lengths := AddPathLength AddPathLength_calls
                                 (IonPdgCode G (to_int (ElemA ele)) (ElemZ ele))
                                 (GetStep G g') (lengths st) \<rparr>)"
  have g1: "geo ?st1 = g'" by (simp add: advance_def)
  from Cons.IH [OF g1] Cons.prems assms show ?case
    by (auto simp add: advance_def element_code_def)
qed

lemma mixture_elements_first:
  assumes "NextBoundary G (geo st) = Some g'" and "NextBoundary G g' = Some g'"
  shows "\<exists>st'. mixture_elements G AddPathLength_calls p els st = Some st' \<and>
      FlagNotInYet st' = FlagNotInYet st \<and> condition st' = condition st \<and>
      lengths st' = lengths st @ map (\<lambda>ele. (element_code G ele, GetStep G g')) els"
proof (cases els)
  case Nil
  then show ?thesis by simp
next
  case (Cons ele els')
  let ?st1 = "advance p (GetStep G g')
               (st\<lparr> geo := g',
                    lengths := AddPathLength AddPathLength_calls
                                 (IonPdgCode G (to_int (ElemA ele)) (ElemZ ele))
                                 (GetStep G g') (lengths st) \<rparr>)"
  have g1: "geo ?st1 = g'" by (simp add: advance_def)
  from mixture_elements_stable [OF assms(2) g1, of p els'] assms(1) Cons show ?thesis
    by (auto simp add: advance_def element_code_def)
qed

lemma element_code_water [simp]:
  "map (\<lambda>ele. (element_code (box_world ion W) ele, s)) (the (GetElements water)) =
     [(ion 1 1, s), (ion 15 8, s)]"
  by (simp add: water_def element_code_def to_int_def)

lemma mixture_elements_calls:
  "mixture_elements G AddPathLength_calls p els st = Some st' \<Longrightarrow>
   \<exists>steps. length steps = length els \<and>
     lengths st' = lengths st @ zip (map (element_code G) els) steps"
proof (induction els arbitrary: st)
  case Nil
  then show ?case by simp
next
  case (Cons ele els)
  from Cons.prems obtain g' where g': "NextBoundary G (geo st) = Some g'"
    by (cases "NextBoundary G (geo st)") simp_all
  let ?st1 = "advance p (GetStep G g')
               (st\<lparr> geo := g',
                    lengths := AddPathLength AddPathLength_calls
                                 (IonPdgCode G (to_int (ElemA ele)) (ElemZ ele))
                                 (GetStep G g') (lengths st) \<rparr>)"
  from Cons.prems g' have "mixture_elements G AddPathLength_calls p els ?st1 = Some st'"
    by simp
  from Cons.IH [OF this] obtain steps where n: "length steps = length els"
    and l: "lengths st' = lengths ?st1 @ zip (map (element_code G) els) steps"
    by blast
  have "lengths ?st1 = lengths st @ [(element_code G ele, GetStep G g')]"
    by (simp add: advance_def element_code_def)
  with l n have "length (GetStep G g' # steps) = length (ele # els) \<and>
      lengths st' = lengths st @ zip (map (element_code G) (ele # els)) (GetStep G g' # steps)"
    by simp
  then show ?case by blast
qed



section \<open>The registered isotopes\<close>

lemma push_elements_set:
  "set (push_elements G els l) =
   set l \<union> (\<lambda>ele. IonPdgCode G (to_int (ElemA ele)) (ElemZ ele)) ` set els"
  by (induction els arbitrary: l) (auto simp add: push_back_def)

lemma BuildListOfTargetNuclei_volumes_codes:
  "BuildListOfTargetNuclei_volumes G LV l = Inr codes \<Longrightarrow>
   set l \<subseteq> set codes \<and>
   (\<forall>TV \<in> set LV. \<forall>med mat. GetMedium TV = Some med \<longrightarrow> GetMaterial med = Some mat \<longrightarrow>
      material_codes G mat \<subseteq> set codes)"
proof (induction LV arbitrary: l)
  case Nil
  then show ?case by simp
next
  case (Cons TV LV)
  from Cons.prems obtain med mat where med: "GetMedium TV = Some med"
    and mat: "GetMaterial med = Some mat"
    by (auto split: option.splits)
  show ?case
  proof (cases "GetElements mat")
    case None
    with Cons.prems med mat
    have "BuildListOfTargetNuclei_volumes G LV
            (push_back (IonPdgCode G (to_int (GetA mat)) (to_int (GetZ mat))) l) = Inr codes"
      by simp
    from Cons.IH [OF this] None med mat show ?thesis
      by (auto simp add: push_back_def material_codes_def)
  next
    case (Some els)
    with Cons.prems med mat
    have "BuildListOfTargetNuclei_volumes G LV (push_elements G els l) = Inr codes"
      by simp
    from Cons.IH [OF this] Some med mat show ?thesis
      by (auto simp add: push_elements_set material_codes_def)
  qed
qed

lemma mixture_elements_codes:
  "mixture_elements G AddPathLength_calls p els st = Some st' \<Longrightarrow>
   fst ` set (lengths st') =
   fst ` set (lengths st) \<union> (\<lambda>ele. IonPdgCode G (to_int (ElemA ele)) (ElemZ ele)) ` set els"
proof (induction els arbitrary: st)
  case Nil
  then show ?case by simp
next
  case (Cons ele els)
  from Cons.prems obtain g' where g': "NextBoundary G (geo st) = Some g'"
    by (auto split: option.splits)
  with Cons.prems Cons.IH [of "advance p (GetStep G g')
               (st\<lparr> geo := g',
                    lengths := AddPathLength AddPathLength_calls
                                 (IonPdgCode G (to_int (ElemA ele)) (ElemZ ele))
                                 (GetStep G g') (lengths st) \<rparr>)"]
  show ?case
    by (auto simp add: advance_def)
qed

lemma add_material_codes:
  "add_material G AddPathLength_calls p mat st = Some st' \<Longrightarrow>
   fst ` set (lengths st') = fst ` set (lengths st) \<union> material_codes G mat"
  unfolding add_material_def material_codes_def
  by (auto simp add: advance_def dest!: mixture_elements_codes split: option.splits)

lemma ComputePathLengths_body_codes:
  assumes vols: "\<forall>g TV. GetCurrentVolume G g = Some TV \<longrightarrow> TV \<in> set LV"
    and reg: "\<forall>TV \<in> set LV. \<forall>med mat. GetMedium TV = Some med \<longrightarrow> GetMaterial med = Some mat \<longrightarrow>
      material_codes G mat \<subseteq> R"
    and inv: "fst ` set (lengths st) \<subseteq> R"
  shows "ComputePathLengths_body G AddPathLength_calls p st = Some (Inr (Break st')) \<Longrightarrow>
           fst ` set (lengths st') \<subseteq> R"
    and "ComputePathLengths_body G AddPathLength_calls p st = Some (Inr (Next st')) \<Longrightarrow>
           fst ` set (lengths st') \<subseteq> R"
proof -
  let ?g = "FindNode G (xx st, yy st, zz st) (SetCurrentPoint G (xx st, yy st, zz st) (geo st))"
  {
    fix r
    assume b: "ComputePathLengths_body G AddPathLength_calls p st = Some (Inr r)"
    then obtain current where c: "GetCurrentVolume G ?g = Some current"
      unfolding ComputePathLengths_body_def Let_def by (auto split: option.splits)
    have "fst ` set (lengths (case r of Break s \<Rightarrow> s | Next s \<Rightarrow> s)) \<subseteq> R"
    proof (cases "IsOutside G ?g")
      case True
      have inv': "a \<in> R" if "(a, l) \<in> set (lengths st)" for a l
        using inv that by force
      from True b c show ?thesis
        unfolding ComputePathLengths_body_def Let_def
        by (auto simp add: advance_def inv' split: option.splits if_splits)
    next
      case False
      with b c obtain med mat st1 where med: "GetMedium current = Some med"
        and mat: "GetMaterial med = Some mat"
        and a: "add_material G AddPathLength_calls p mat
                  (st\<lparr> geo := ?g, FlagNotInYet := True, condition := True \<rparr>) = Some st1"
        and r: "r = Next st1"
        unfolding ComputePathLengths_body_def Let_def by (auto split: option.splits)
      from vols c have "current \<in> set LV" by blast
      with reg med mat have "material_codes G mat \<subseteq> R" by blast
      with add_material_codes [OF a] inv r show ?thesis by auto
    qed
  }
  note * = this
  show "ComputePathLengths_body G AddPathLength_calls p st = Some (Inr (Break st')) \<Longrightarrow>
           fst ` set (lengths st') \<subseteq> R"
    using * [of "Break st'"] by simp
  show "ComputePathLengths_body G AddPathLength_calls p st = Some (Inr (Next st')) \<Longrightarrow>
           fst ` set (lengths st') \<subseteq> R"
    using * [of "Next st'"] by simp
qed

lemma ComputePathLengths_loop_invariant:
  assumes brk: "\<And>s s'. I s \<Longrightarrow> ComputePathLengths_body G L p s = Some (Inr (Break s')) \<Longrightarrow> I s'"
    and nxt: "\<And>s s'. I s \<Longrightarrow> ComputePathLengths_body G L p s = Some (Inr (Next s')) \<Longrightarrow> I s'"
    and run: "ComputePathLengths_loop G L p st = Some (Inr st')"
    and inv: "I st"
  shows "I st'"
proof -
  have "\<forall>st'. H = G \<and> K = L \<and> q = p \<and> r = Inr st' \<and> I s \<longrightarrow> I st'"
    if "ComputePathLengths_loop H K q s = Some r" for H K q s r
  proof (rule ComputePathLengths_loop.raw_induct
      [where P = "\<lambda>H K q s r. \<forall>st'. H = G \<and> K = L \<and> q = p \<and> r = Inr st' \<and> I s \<longrightarrow> I st'",
       OF _ that], goal_cases)
    case (1 rec H K q s r)
    show ?case
    proof (intro allI impI)
      fix st'
      assume h: "H = G \<and> K = L \<and> q = p \<and> r = Inr st' \<and> I s"
      show "I st'"
      proof (cases "\<not> FlagNotInYet s \<or> condition s")
        case False
        with 1(2) h show ?thesis by auto
      next
        case True
        with 1(2) h consider
            s1 where "ComputePathLengths_body G L p s = Some (Inr (Break s1))" "st' = s1"
          | s1 where "ComputePathLengths_body G L p s = Some (Inr (Next s1))"
              "rec G L p s1 = Some (Inr st')"
          by (auto split: option.splits sum.splits flow.splits)
        then show ?thesis
        proof cases
          case 1
          with brk h show ?thesis by blast
        next
          case 2
          from nxt [OF _ 2(1)] h have "I s1" by blast
          with 1(1) [OF 2(2)] show ?thesis by blast
        qed
      qed
    qed
  qed
  from this [OF run] inv show ?thesis by blast
qed

lemma ComputePathLengths_loop_codes:
  assumes vols: "\<forall>g TV. GetCurrentVolume G g = Some TV \<longrightarrow> TV \<in> set LV"
    and reg: "\<forall>TV \<in> set LV. \<forall>med mat. GetMedium TV = Some med \<longrightarrow> GetMaterial med = Some mat \<longrightarrow>
      material_codes G mat \<subseteq> R"
    and run: "ComputePathLengths_loop G AddPathLength_calls p st = Some (Inr st')"
    and inv: "fst ` set (lengths st) \<subseteq> R"
  shows "fst ` set (lengths st') \<subseteq> R"
  using ComputePathLengths_body_codes [OF vols reg] run inv
  by (rule ComputePathLengths_loop_invariant [where I = "\<lambda>s. fst ` set (lengths s) \<subseteq> R"])

lemma ComputePathLengths_keeps_codes:
  "ComputePathLengths G L a x p = Some (Inr (a', r)) \<Longrightarrow> fCurrPDGCodeList a' = fCurrPDGCodeList a"
  unfolding ComputePathLengths_def by (auto split: if_splits option.splits sum.splits)

lemma SetVtxMaterial_keeps_codes:
  "SetVtxMaterial G rnd a n pdgc = Some (Inr (a', n', m)) \<Longrightarrow> fCurrPDGCodeList a' = fCurrPDGCodeList a"
  unfolding SetVtxMaterial_def by (auto split: if_splits option.splits sum.splits)

lemma GenerateVertex_keeps_codes:
  "GenerateVertex G rnd a n x p t = Some (Inr (a', n', v)) \<Longrightarrow> fCurrPDGCodeList a' = fCurrPDGCodeList a"
  unfolding GenerateVertex_def Let_def by (auto split: if_splits option.splits sum.splits)

text \<open>
  Claim C7. Let the analyzer's list of codes be the one \<open>BuildListOfTargetNuclei\<close> builds
  from the volumes of the loaded geometry, and let the navigator only resolve volumes of
  that list. Then every code \<open>ComputePathLengths\<close> passes to \<^verbatim>\<open>AddPathLength\<close> is in the
  list, and none of \<open>ComputePathLengths\<close>, \<open>SetVtxMaterial\<close> and \<open>GenerateVertex\<close> changes
  the list.
\<close>

theorem added_isotopes_are_registered:
  assumes built: "BuildListOfTargetNuclei G (Some g0) = Inr (fCurrPDGCodeList a)"
    and vols: "\<forall>g TV. GetCurrentVolume G g = Some TV \<longrightarrow> TV \<in> set (GetListOfVolumes G g0)"
    and run: "ComputePathLengths G AddPathLength_calls a x p = Some (Inr (a', calls))"
  shows "(\<forall>(code, len) \<in> set calls. ExistsInPDGCodeList (fCurrPDGCodeList a) code) \<and>
         fCurrPDGCodeList a' = fCurrPDGCodeList a \<and>
         (\<forall>rnd n pdgc a2 n2 m. SetVtxMaterial G rnd a n pdgc = Some (Inr (a2, n2, m)) \<longrightarrow>
            fCurrPDGCodeList a2 = fCurrPDGCodeList a) \<and>
         (\<forall>rnd n y q t a3 n3 v. GenerateVertex G rnd a n y q t = Some (Inr (a3, n3, v)) \<longrightarrow>
            fCurrPDGCodeList a3 = fCurrPDGCodeList a)"
proof -
  from built have b: "BuildListOfTargetNuclei_volumes G (GetListOfVolumes G g0) [] = Inr (fCurrPDGCodeList a)"
    by (simp add: BuildListOfTargetNuclei_def)
  from BuildListOfTargetNuclei_volumes_codes [OF b]
  have reg: "\<forall>TV \<in> set (GetListOfVolumes G g0). \<forall>med mat. GetMedium TV = Some med \<longrightarrow>
      GetMaterial med = Some mat \<longrightarrow> material_codes G mat \<subseteq> set (fCurrPDGCodeList a)"
    by blast
  from run obtain st st' where l: "ComputePathLengths_loop G AddPathLength_calls p st = Some (Inr st')"
    and st: "lengths st = []" and c: "calls = lengths st'"
    unfolding ComputePathLengths_def
    by (auto simp add: AddPathLength_calls_def split: if_splits option.splits sum.splits)
  from ComputePathLengths_loop_codes [OF vols reg l] st c
  have "fst ` set calls \<subseteq> set (fCurrPDGCodeList a)" by simp
  then have "\<forall>(code, len) \<in> set calls. ExistsInPDGCodeList (fCurrPDGCodeList a) code"
    by (force simp add: ExistsInPDGCodeList_def)
  with ComputePathLengths_keeps_codes [OF run] show ?thesis
    by (auto dest: SetVtxMaterial_keeps_codes GenerateVertex_keeps_codes)
qed

theorem added_isotopes_are_registered_witness:
  "ExistsInPDGCodeList (fCurrPDGCodeList cube_calls_analyzer) (ion_code 16 8) \<and>
   fCurrPDGCodeList
     (cube_calls_analyzer\<lparr> fGeometry := Some \<lparr> nav_point = (10, 0, 0), nav_dir = (1, 0, 0) \<rparr>,
                           fCurrPathLengthList := [(ion_code 16 8, 20)] \<rparr>) = [ion_code 16 8]"
proof -
  have built: "BuildListOfTargetNuclei (box_world ion_code (cube (isotope 16 8 1))) (Some nav0) =
               Inr (fCurrPDGCodeList cube_calls_analyzer)"
    by (simp add: BuildListOfTargetNuclei_def push_back_def cube_calls_analyzer_def)
  have vols: "\<forall>g TV. GetCurrentVolume (box_world ion_code (cube (isotope 16 8 1))) g = Some TV \<longrightarrow>
      TV \<in> set (GetListOfVolumes (box_world ion_code (cube (isotope 16 8 1))) nav0)"
    by simp
  have run: "ComputePathLengths (box_world ion_code (cube (isotope 16 8 1))) AddPathLength_calls
      cube_calls_analyzer ray_origin ray_momentum =
      Some (Inr (cube_calls_analyzer\<lparr> fGeometry := Some \<lparr> nav_point = (10, 0, 0), nav_dir = (1, 0, 0) \<rparr>,
                           fCurrPathLengthList := [(ion_code 16 8, 20)] \<rparr>, [(ion_code 16 8, 20)]))"
    by (simp add: cube_calls_analyzer_def cube_ComputePathLengths)
  from added_isotopes_are_registered [OF built vols run] show ?thesis
    by (simp add: cube_calls_analyzer_def)
qed

section \<open>Repeating a call\<close>

lemma ComputePathLengths_body_relocated:
  assumes "FindNode G (xx st, yy st, zz st) (SetCurrentPoint G (xx st, yy st, zz st) g2) =
           FindNode G (xx st, yy st, zz st) (SetCurrentPoint G (xx st, yy st, zz st) (geo st))"
  shows "ComputePathLengths_body G L p (st\<lparr> geo := g2 \<rparr>) = ComputePathLengths_body G L p st"
proof -
  have "ComputePathLengths_body G L p (st\<lparr> geo := g2 \<rparr>) =
        ComputePathLengths_body G L p (st\<lparr> geo := geo st \<rparr>)"
    unfolding ComputePathLengths_body_def Let_def using assms
    by (simp cong: option.case_cong if_cong)
  then show ?thesis by simp
qed

lemma ComputePathLengths_loop_relocated:
  assumes "FindNode G (xx st, yy st, zz st) (SetCurrentPoint G (xx st, yy st, zz st) g2) =
           FindNode G (xx st, yy st, zz st) (SetCurrentPoint G (xx st, yy st, zz st) (geo st))"
    and "\<not> FlagNotInYet st \<or> condition st"
  shows "ComputePathLengths_loop G L p (st\<lparr> geo := g2 \<rparr>) = ComputePathLengths_loop G L p st"
  using assms(2)
  by (simp add: ComputePathLengths_loop.simps [of G L p st]
        ComputePathLengths_loop.simps [of G L p "st\<lparr> geo := g2 \<rparr>"]
        ComputePathLengths_body_relocated [OF assms(1)])

lemma dom_AddPathLength:
  "dom (AddPathLength PathLengthList pdgc pl m) = dom m"
  by (cases "m pdgc") (auto simp add: PathLengthList_def)

lemma mixture_elements_dom:
  "mixture_elements G PathLengthList p els st = Some st' \<Longrightarrow> dom (lengths st') = dom (lengths st)"
proof (induction els arbitrary: st)
  case Nil
  then show ?case by simp
next
  case (Cons ele els)
  from Cons.prems obtain g' where g': "NextBoundary G (geo st) = Some g'"
    by (cases "NextBoundary G (geo st)") simp_all
  let ?st1 = "advance p (GetStep G g')
               (st\<lparr> geo := g',
                    lengths := AddPathLength PathLengthList
                                 (IonPdgCode G (to_int (ElemA ele)) (ElemZ ele))
                                 (GetStep G g') (lengths st) \<rparr>)"
  from Cons.prems g' have "mixture_elements G PathLengthList p els ?st1 = Some st'"
    by simp
  from Cons.IH [OF this] have "dom (lengths st') = dom (lengths ?st1)" .
  also have "lengths ?st1 = AddPathLength PathLengthList
                                 (IonPdgCode G (to_int (ElemA ele)) (ElemZ ele))
                                 (GetStep G g') (lengths st)"
    by (simp add: advance_def del: PathLengthList_sel)
  finally show ?case by (simp only: dom_AddPathLength)
qed

lemma add_material_dom:
  assumes "add_material G PathLengthList p mat st = Some st'"
  shows "dom (lengths st') = dom (lengths st)"
proof (cases "GetElements mat")
  case (Some els)
  with assms show ?thesis
    unfolding add_material_def by (simp add: mixture_elements_dom)
next
  case None
  with assms obtain g' where g': "NextBoundary G (geo st) = Some g'"
    unfolding add_material_def by (cases "NextBoundary G (geo st)") simp_all
  with assms None have "lengths st' = AddPathLength PathLengthList
                              (IonPdgCode G (to_int (GetA mat)) (to_int (GetZ mat)))
                              (GetStep G g') (lengths st)"
    unfolding add_material_def by (auto simp add: advance_def simp del: PathLengthList_sel)
  then show ?thesis by (simp only: dom_AddPathLength)
qed

lemma ComputePathLengths_body_lengths:
  assumes "ComputePathLengths_body G L p st = Some (Inr r)"
  shows "(\<exists>s. (r = Break s \<or> r = Next s) \<and> lengths s = lengths st) \<or>
         (\<exists>s mat st1. r = Next s \<and> lengths st1 = lengths st \<and> add_material G L p mat st1 = Some s)"
proof -
  let ?g = "FindNode G (xx st, yy st, zz st) (SetCurrentPoint G (xx st, yy st, zz st) (geo st))"
  from assms obtain current where c: "GetCurrentVolume G ?g = Some current"
    unfolding ComputePathLengths_body_def Let_def by (auto split: option.splits)
  show ?thesis
  proof (cases "IsOutside G ?g")
    case True
    with assms c show ?thesis
      unfolding ComputePathLengths_body_def Let_def
      by (auto simp add: advance_def split: option.splits if_splits)
  next
    case False
    with assms c obtain med mat s where "GetMedium current = Some med" "GetMaterial med = Some mat"
      and a: "add_material G L p mat (st\<lparr> geo := ?g, FlagNotInYet := True, condition := True \<rparr>) = Some s"
      and r: "r = Next s"
      unfolding ComputePathLengths_body_def Let_def by (auto split: option.splits)
    have "lengths (st\<lparr> geo := ?g, FlagNotInYet := True, condition := True \<rparr>) = lengths st"
      by simp
    with a r show ?thesis by blast
  qed
qed

lemma ComputePathLengths_body_dom:
  assumes "ComputePathLengths_body G PathLengthList p st = Some (Inr r)"
    and "r = Break st' \<or> r = Next st'"
  shows "dom (lengths st') = dom (lengths st)"
proof -
  from ComputePathLengths_body_lengths [OF assms(1)] consider
      (same) s where "r = Break s \<or> r = Next s" "lengths s = lengths st"
    | (add) s mat st1 where "r = Next s" "lengths st1 = lengths st"
        "add_material G PathLengthList p mat st1 = Some s"
    by blast
  then show ?thesis
  proof cases
    case same
    with assms(2) have "s = st'" by auto
    with same show ?thesis by simp
  next
    case add
    with assms(2) have "s = st'" by auto
    with add_material_dom [OF add(3)] add(2) show ?thesis by simp
  qed
qed

lemma ComputePathLengths_loop_dom:
  assumes "ComputePathLengths_loop G PathLengthList p st = Some (Inr st')"
  shows "dom (lengths st') = dom (lengths st)"
proof -
  have "dom (lengths st') = dom (lengths st)"
  proof (rule ComputePathLengths_loop_invariant
      [where I = "\<lambda>s. dom (lengths s) = dom (lengths st)" and G = G and L = PathLengthList
         and p = p and st = st])
    show "ComputePathLengths_loop G PathLengthList p st = Some (Inr st')" by (rule assms)
  next
    fix s s' assume "dom (lengths s) = dom (lengths st)"
      "ComputePathLengths_body G PathLengthList p s = Some (Inr (Break s'))"
    then show "dom (lengths s') = dom (lengths st)"
      using ComputePathLengths_body_dom [of G p s "Break s'" s'] by simp
  next
    fix s s' assume "dom (lengths s) = dom (lengths st)"
      "ComputePathLengths_body G PathLengthList p s = Some (Inr (Next s'))"
    then show "dom (lengths s') = dom (lengths st)"
      using ComputePathLengths_body_dom [of G p s "Next s'" s'] by simp
  qed simp
  then show ?thesis .
qed

lemma SetAllToZero_dom:
  assumes "dom m' = dom m"
  shows "SetAllToZero PathLengthList m' = SetAllToZero PathLengthList m"
proof -
  have "(m' k = None) = (m k = None)" for k
    using assms by (metis domIff)
  then show ?thesis by (simp add: fun_eq_iff)
qed

lemma dom_SetAllToZero: "dom (SetAllToZero PathLengthList m) = dom m"
  by (auto simp add: dom_def)

text \<open>
  Claim C8. Let a call of \<open>ComputePathLengths\<close> return the list \<open>r1\<close> and leave the
  analyzer \<open>a1\<close>. The same call on \<open>a1\<close> returns \<open>r1\<close> again and leaves \<open>a1\<close> as it is,
  provided that pointing the navigator at the ray's origin and direction brings it from
  the state the first call left to the state it reached on the first call (the geometry
  is not changed and the navigator keeps nothing else from the previous ray). The reset
  makes the result independent of the values the list held before: the call on the
  analyzer with any other values under the same keys returns \<open>r1\<close> too.
\<close>

theorem path_lengths_repeatable:
  assumes run: "ComputePathLengths G PathLengthList a x p = Some (Inr (a1, r1))"
    and g: "fGeometry a = Some g" and g1: "fGeometry a1 = Some g1"
    and sync: "FindNode G (fX x, fY x, fZ x) (SetCurrentPoint G (fX x, fY x, fZ x)
                 (SetCurrentDirection G (Px p / P p, Py p / P p, Pz p / P p) g1)) =
               FindNode G (fX x, fY x, fZ x) (SetCurrentPoint G (fX x, fY x, fZ x)
                 (SetCurrentDirection G (Px p / P p, Py p / P p, Pz p / P p) g))"
  shows "ComputePathLengths G PathLengthList a1 x p = Some (Inr (a1, r1)) \<and>
         (\<forall>pl'. dom pl' = dom (fCurrPathLengthList a) \<longrightarrow>
            ComputePathLengths G PathLengthList (a\<lparr> fCurrPathLengthList := pl' \<rparr>) x p =
              Some (Inr (a1, r1)))"
proof -
  let ?d = "(Px p / P p, Py p / P p, Pz p / P p)"
  let ?st0 = "\<lparr> geo = SetCurrentDirection G ?d g, xx = fX x, yy = fY x, zz = fZ x,
                FlagNotInYet = False, condition = True,
                lengths = SetAllToZero PathLengthList (fCurrPathLengthList a) \<rparr>"
  from run g have nz: "P p \<noteq> 0"
    unfolding ComputePathLengths_def by (auto split: if_splits)
  from run g nz have run': "(case ComputePathLengths_loop G PathLengthList p ?st0 of
        None \<Rightarrow> None
      | Some (Inl f) \<Rightarrow> Some (Inl f)
      | Some (Inr st) \<Rightarrow>
          Some (Inr (a\<lparr> fGeometry := Some (geo st), fCurrPathLengthList := lengths st \<rparr>, lengths st))) =
      Some (Inr (a1, r1))"
    unfolding ComputePathLengths_def by (simp del: PathLengthList_sel)
  then obtain st' where l: "ComputePathLengths_loop G PathLengthList p ?st0 = Some (Inr st')"
    by (cases "ComputePathLengths_loop G PathLengthList p ?st0")
       (simp_all del: PathLengthList_sel split: sum.splits)
  with run' have a1: "a1 = a\<lparr> fGeometry := Some (geo st'), fCurrPathLengthList := lengths st' \<rparr>"
    and r1: "r1 = lengths st'"
    by (auto simp del: PathLengthList_sel)
  from ComputePathLengths_loop_dom [OF l]
  have d: "dom (lengths st') = dom (fCurrPathLengthList a)"
    by (simp add: dom_SetAllToZero del: PathLengthList_sel)
  have z: "SetAllToZero PathLengthList (lengths st') = SetAllToZero PathLengthList (fCurrPathLengthList a)"
    by (rule SetAllToZero_dom [OF d])
  from a1 g1 have gg: "g1 = geo st'" by simp
  have "ComputePathLengths_loop G PathLengthList p (?st0\<lparr> geo := SetCurrentDirection G ?d g1 \<rparr>) =
        ComputePathLengths_loop G PathLengthList p ?st0"
    by (rule ComputePathLengths_loop_relocated) (simp_all add: sync)
  with l have l2: "ComputePathLengths_loop G PathLengthList p
      \<lparr> geo = SetCurrentDirection G ?d g1, xx = fX x, yy = fY x, zz = fZ x,
        FlagNotInYet = False, condition = True,
        lengths = SetAllToZero PathLengthList (fCurrPathLengthList a) \<rparr> = Some (Inr st')"
    by simp
  have pl1: "fCurrPathLengthList a1 = lengths st'"
    by (simp add: a1)
  have "ComputePathLengths G PathLengthList a1 x p =
        Some (Inr (a1\<lparr> fGeometry := Some (geo st'), fCurrPathLengthList := lengths st' \<rparr>,
                   lengths st'))"
    unfolding ComputePathLengths_def using nz
    by (simp add: g1 pl1 z l2 del: PathLengthList_sel)
  moreover have "a1\<lparr> fGeometry := Some (geo st'), fCurrPathLengthList := lengths st' \<rparr> = a1"
    by (simp add: a1)
  ultimately have first: "ComputePathLengths G PathLengthList a1 x p = Some (Inr (a1, r1))"
    by (simp add: r1)
  have second: "ComputePathLengths G PathLengthList (a\<lparr> fCurrPathLengthList := pl' \<rparr>) x p =
              Some (Inr (a1, r1))" if "dom pl' = dom (fCurrPathLengthList a)" for pl'
    unfolding ComputePathLengths_def using nz l g SetAllToZero_dom [OF that]
    by (simp add: a1 r1 del: PathLengthList_sel)
  from first second show ?thesis by blast
qed

theorem path_lengths_repeatable_witness:
  "ComputePathLengths (box_world ion_code (cube (isotope 16 8 1))) PathLengthList
     (cube_analyzer\<lparr> fGeometry := Some \<lparr> nav_point = (10, 0, 0), nav_dir = (1, 0, 0) \<rparr>,
                     fCurrPathLengthList := [ion_code 16 8 \<mapsto> 20] \<rparr>)
     ray_origin ray_momentum =
   Some (Inr (cube_analyzer\<lparr> fGeometry := Some \<lparr> nav_point = (10, 0, 0), nav_dir = (1, 0, 0) \<rparr>,
                             fCurrPathLengthList := [ion_code 16 8 \<mapsto> 20] \<rparr>,
              [ion_code 16 8 \<mapsto> 20]))"
proof -
  let ?a1 = "cube_analyzer\<lparr> fGeometry := Some \<lparr> nav_point = (10, 0, 0), nav_dir = (1, 0, 0) \<rparr>,
                     fCurrPathLengthList := [ion_code 16 8 \<mapsto> 20] \<rparr>"
  have l: "AddPathLength PathLengthList (ion_code 16 8) 20
             (SetAllToZero PathLengthList [ion_code 16 8 \<mapsto> 0]) = [ion_code 16 8 \<mapsto> 20]"
    by (auto simp add: fun_eq_iff)
  have run: "ComputePathLengths (box_world ion_code (cube (isotope 16 8 1))) PathLengthList
     cube_analyzer ray_origin ray_momentum = Some (Inr (?a1, [ion_code 16 8 \<mapsto> 20]))"
    by (simp add: cube_analyzer_def cube_ComputePathLengths l del: PathLengthList_sel)
  have g: "fGeometry cube_analyzer = Some nav0"
    and g1: "fGeometry ?a1 = Some \<lparr> nav_point = (10, 0, 0), nav_dir = (1, 0, 0) \<rparr>"
    by (simp_all add: cube_analyzer_def)
  from path_lengths_repeatable [OF run g g1] show ?thesis
    by (simp add: nav0_def)
qed

section \<open>When the traversal ends\<close>

lemma mixture_elements_flags:
  "mixture_elements G L p els st = Some st' \<Longrightarrow>
   FlagNotInYet st' = FlagNotInYet st \<and> condition st' = condition st"
proof (induction els arbitrary: st)
  case Nil
  then show ?case by simp
next
  case (Cons ele els)
  from Cons.prems obtain g' where g': "NextBoundary G (geo st) = Some g'"
    by (cases "NextBoundary G (geo st)") simp_all
  with Cons.prems Cons.IH [of "advance p (GetStep G g')
               (st\<lparr> geo := g',
                    lengths := AddPathLength L (IonPdgCode G (to_int (ElemA ele)) (ElemZ ele))
                                 (GetStep G g') (lengths st) \<rparr>)"]
  show ?case by (simp add: advance_def)
qed

lemma add_material_flags:
  assumes "add_material G L p mat st = Some st'"
  shows "FlagNotInYet st' = FlagNotInYet st \<and> condition st' = condition st"
proof (cases "GetElements mat")
  case (Some els)
  with assms show ?thesis
    unfolding add_material_def by (simp add: mixture_elements_flags)
next
  case None
  with assms show ?thesis
    unfolding add_material_def
    by (cases "NextBoundary G (geo st)") (auto simp add: advance_def)
qed

lemma ComputePathLengths_body_Break:
  "ComputePathLengths_body G L p st = Some (Inr (Break s1)) \<longleftrightarrow>
   FlagNotInYet st \<and> IsOutside G (resolved G st) \<and> GetCurrentVolume G (resolved G st) \<noteq> None \<and>
   s1 = st\<lparr> geo := resolved G st, condition := False \<rparr>"
  unfolding ComputePathLengths_body_def Let_def resolved_def
  by (auto split: option.splits)

lemma ComputePathLengths_body_Next:
  assumes "ComputePathLengths_body G L p st = Some (Inr (Next s1))"
  shows "\<not> FlagNotInYet s1 \<or> condition s1"
proof -
  let ?g = "FindNode G (xx st, yy st, zz st) (SetCurrentPoint G (xx st, yy st, zz st) (geo st))"
  from assms obtain current where c: "GetCurrentVolume G ?g = Some current"
    unfolding ComputePathLengths_body_def Let_def by (auto split: option.splits)
  show ?thesis
  proof (cases "IsOutside G ?g")
    case True
    with assms c show ?thesis
      unfolding ComputePathLengths_body_def Let_def
      by (auto simp add: advance_def split: option.splits if_splits)
  next
    case False
    with assms c obtain mat where
      "add_material G L p mat (st\<lparr> geo := ?g, FlagNotInYet := True, condition := True \<rparr>) = Some s1"
      unfolding ComputePathLengths_body_def Let_def by (auto split: option.splits)
    from add_material_flags [OF this] show ?thesis by simp
  qed
qed

lemma ComputePathLengths_body_approach:
  assumes "\<not> FlagNotInYet st" "IsOutside G (resolved G st)"
    "GetCurrentVolume G (resolved G st) \<noteq> None" "NextBoundary G (resolved G st) = Some g'"
  shows "ComputePathLengths_body G L p st =
     Some (Inr (Next (advance p (GetStep G g') (st\<lparr> geo := g', condition := False \<rparr>))))"
  using assms unfolding ComputePathLengths_body_def Let_def resolved_def
  by auto

lemma ComputePathLengths_loop_passes:
  assumes "ComputePathLengths_passes G L p n st = Some s"
    and "FlagNotInYet s" "IsOutside G (resolved G s)" "GetCurrentVolume G (resolved G s) \<noteq> None"
    and "\<not> FlagNotInYet st \<or> condition st"
  shows "ComputePathLengths_loop G L p st = Some (Inr (s\<lparr> geo := resolved G s, condition := False \<rparr>))"
  using assms(1,5)
proof (induction n arbitrary: st)
  case 0
  then have "st = s" by simp
  with assms(2-4) have "ComputePathLengths_body G L p st =
      Some (Inr (Break (s\<lparr> geo := resolved G s, condition := False \<rparr>)))"
    by (simp add: ComputePathLengths_body_Break)
  from ComputePathLengths_loop_Break [OF "0.prems"(2) this] show ?case .
next
  case (Suc n)
  from Suc.prems(1) obtain s1 where b: "ComputePathLengths_body G L p st = Some (Inr (Next s1))"
    and r: "ComputePathLengths_passes G L p n s1 = Some s"
    by (auto split: option.splits sum.splits flow.splits)
  from Suc.IH [OF r ComputePathLengths_body_Next [OF b]]
    ComputePathLengths_loop_Next [OF Suc.prems(2) b]
  show ?case by simp
qed

lemma ComputePathLengths_loop_returns:
  assumes run: "ComputePathLengths_loop G L p st = Some (Inr st')"
    and start: "\<not> FlagNotInYet st \<or> condition st"
  shows "\<exists>n s. ComputePathLengths_passes G L p n st = Some s \<and> FlagNotInYet s \<and>
           IsOutside G (resolved G s) \<and> GetCurrentVolume G (resolved G s) \<noteq> None \<and>
           st' = s\<lparr> geo := resolved G s, condition := False \<rparr>"
proof -
  let ?Q = "\<lambda>s st'. \<exists>n s2. ComputePathLengths_passes G L p n s = Some s2 \<and> FlagNotInYet s2 \<and>
           IsOutside G (resolved G s2) \<and> GetCurrentVolume G (resolved G s2) \<noteq> None \<and>
           st' = s2\<lparr> geo := resolved G s2, condition := False \<rparr>"
  have "\<forall>st'. H = G \<and> K = L \<and> q = p \<and> r = Inr st' \<and> (\<not> FlagNotInYet s \<or> condition s) \<longrightarrow> ?Q s st'"
    if "ComputePathLengths_loop H K q s = Some r" for H K q s r
  proof (rule ComputePathLengths_loop.raw_induct
      [where P = "\<lambda>H K q s r. \<forall>st'. H = G \<and> K = L \<and> q = p \<and> r = Inr st' \<and>
                    (\<not> FlagNotInYet s \<or> condition s) \<longrightarrow> ?Q s st'",
       OF _ that], goal_cases)
    case (1 rec H K q s r)
    show ?case
    proof (intro allI impI)
      fix st'
      assume h: "H = G \<and> K = L \<and> q = p \<and> r = Inr st' \<and> (\<not> FlagNotInYet s \<or> condition s)"
      with 1(2) consider
          s1 where "ComputePathLengths_body G L p s = Some (Inr (Break s1))" "st' = s1"
        | s1 where "ComputePathLengths_body G L p s = Some (Inr (Next s1))"
            "rec G L p s1 = Some (Inr st')"
        by (auto split: option.splits sum.splits flow.splits)
      then show "?Q s st'"
      proof cases
        case 1
        then have "ComputePathLengths_passes G L p 0 s = Some s \<and> FlagNotInYet s \<and>
           IsOutside G (resolved G s) \<and> GetCurrentVolume G (resolved G s) \<noteq> None \<and>
           st' = s\<lparr> geo := resolved G s, condition := False \<rparr>"
          by (simp add: ComputePathLengths_body_Break)
        then show ?thesis by blast
      next
        case 2
        from 1(1) [OF 2(2)] ComputePathLengths_body_Next [OF 2(1)]
        obtain n s2 where "ComputePathLengths_passes G L p n s1 = Some s2" "FlagNotInYet s2"
           "IsOutside G (resolved G s2)" "GetCurrentVolume G (resolved G s2) \<noteq> None"
           "st' = s2\<lparr> geo := resolved G s2, condition := False \<rparr>"
          by blast
        with 2(1) have "ComputePathLengths_passes G L p (Suc n) s = Some s2 \<and> FlagNotInYet s2 \<and>
           IsOutside G (resolved G s2) \<and> GetCurrentVolume G (resolved G s2) \<noteq> None \<and>
           st' = s2\<lparr> geo := resolved G s2, condition := False \<rparr>"
          by simp
        then show ?thesis by blast
      qed
    qed
  qed
  from this [OF run] start show ?thesis by blast
qed



end
